theory Spec2Isabelle
  imports Main "HOL-Library.Sublist"
begin

section \<open>Strings of the host language\<close>

text \<open>
  A JavaScript string is modelled by the list of its Unicode code points (the strings
  are taken to be well-formed UTF-16, so that code units and code points describe the
  same text). ASCII literals of the source are written \<open>lit ''...''\<close>.
\<close>

type_synonym jsstring = "nat list"

definition lit :: "string \<Rightarrow> jsstring" where
  "lit s = map of_char s"

text \<open>
  \<open>String.prototype.toLowerCase\<close>. The mapping is the one of Unicode for the code points
  U+0000..U+00FF (Basic Latin and Latin-1: \<open>A..Z\<close> and \<open>U+00C0..U+00DE\<close> without the
  multiplication sign \<open>U+00D7\<close>), and for the two letter-like symbols outside that range
  whose lower-case form lies inside it (KELVIN SIGN \<open>U+212A\<close> and ANGSTROM SIGN
  \<open>U+212B\<close>). Every other code point is left as it is: the model is exact on strings
  whose cased letters are below U+0100.
\<close>

definition lowerCP :: "nat \<Rightarrow> nat" where
  "lowerCP c =
     (if 0x41 \<le> c \<and> c \<le> 0x5A then c + 0x20
      else if 0xC0 \<le> c \<and> c \<le> 0xDE \<and> c \<noteq> 0xD7 then c + 0x20
      else if c = 0x212A then 0x6B
      else if c = 0x212B then 0xE5
      else c)"

definition toLowerCase :: "jsstring \<Rightarrow> jsstring" where
  "toLowerCase s = map lowerCP s"

text \<open>\<open>s.includes(k)\<close>: \<open>k\<close> occurs in \<open>s\<close> as a contiguous run.\<close>

fun includes_str :: "jsstring \<Rightarrow> jsstring \<Rightarrow> bool" where
  "includes_str [] k = (k = [])"
| "includes_str (c # cs) k = (prefix k (c # cs) \<or> includes_str cs k)"

text \<open>
  White space as \<open>String.prototype.trim\<close> and the regular expression class \<open>\s\<close>
  understand it: the WhiteSpace and LineTerminator code points of ECMAScript (TAB, LF,
  VT, FF, CR, SPACE, NO-BREAK SPACE, the other space separators of Unicode, LINE and
  PARAGRAPH SEPARATOR, and the byte order mark \<open>U+FEFF\<close>).
\<close>

definition isWhiteSpace :: "nat \<Rightarrow> bool" where
  "isWhiteSpace c =
     ((0x09 \<le> c \<and> c \<le> 0x0D) \<or> c = 0x20 \<or> c = 0xA0 \<or> c = 0x1680 \<or>
      (0x2000 \<le> c \<and> c \<le> 0x200A) \<or> c = 0x2028 \<or> c = 0x2029 \<or> c = 0x202F \<or>
      c = 0x205F \<or> c = 0x3000 \<or> c = 0xFEFF)"

definition trim :: "jsstring \<Rightarrow> jsstring" where
  "trim s = rev (dropWhile isWhiteSpace (rev (dropWhile isWhiteSpace s)))"

text \<open>
  \<open>s.charAt(0).toUpperCase()\<close> for the first code point \<open>c\<close> of a string: the upper-case
  mapping of the Unicode Character Database (version 14.0; \<open>UnicodeData.txt\<close> and the
  unconditional entries of \<open>SpecialCasing.txt\<close>) for the code points below U+10000. The
  upper-case form can be longer than one character (\<open>U+00DF\<close> gives \<open>SS\<close>):
  \<open>upperCaseSpecial\<close> lists these code points with their forms. \<open>upperCaseRuns\<close> lists
  the others as runs \<open>(lo, hi, step, d)\<close>: every code point \<open>lo\<close>, \<open>lo + step\<close>, ... up to
  \<open>hi\<close> has the upper-case form \<open>c + d\<close>. A code point outside both tables is its own
  upper-case form. A code point from U+10000 on is two UTF-16 code units, of which
  \<open>charAt(0)\<close> is the first alone: a lone surrogate, which \<open>toUpperCase\<close> does not change.
\<close>

definition upperCaseSpecial :: "(nat \<times> jsstring) list" where
  "upperCaseSpecial =
     [(0xDF, [0x53, 0x53]), (0x149, [0x2BC, 0x4E]), (0x1F0, [0x4A, 0x30C]),
      (0x390, [0x399, 0x308, 0x301]), (0x3B0, [0x3A5, 0x308, 0x301]), (0x587, [0x535, 0x552]),
      (0x1E96, [0x48, 0x331]), (0x1E97, [0x54, 0x308]), (0x1E98, [0x57, 0x30A]),
      (0x1E99, [0x59, 0x30A]), (0x1E9A, [0x41, 0x2BE]), (0x1F50, [0x3A5, 0x313]),
      (0x1F52, [0x3A5, 0x313, 0x300]), (0x1F54, [0x3A5, 0x313, 0x301]),
      (0x1F56, [0x3A5, 0x313, 0x342]), (0x1F80, [0x1F08, 0x399]), (0x1F81, [0x1F09, 0x399]),
      (0x1F82, [0x1F0A, 0x399]), (0x1F83, [0x1F0B, 0x399]), (0x1F84, [0x1F0C, 0x399]),
      (0x1F85, [0x1F0D, 0x399]), (0x1F86, [0x1F0E, 0x399]), (0x1F87, [0x1F0F, 0x399]),
      (0x1F88, [0x1F08, 0x399]), (0x1F89, [0x1F09, 0x399]), (0x1F8A, [0x1F0A, 0x399]),
      (0x1F8B, [0x1F0B, 0x399]), (0x1F8C, [0x1F0C, 0x399]), (0x1F8D, [0x1F0D, 0x399]),
      (0x1F8E, [0x1F0E, 0x399]), (0x1F8F, [0x1F0F, 0x399]), (0x1F90, [0x1F28, 0x399]),
      (0x1F91, [0x1F29, 0x399]), (0x1F92, [0x1F2A, 0x399]), (0x1F93, [0x1F2B, 0x399]),
      (0x1F94, [0x1F2C, 0x399]), (0x1F95, [0x1F2D, 0x399]), (0x1F96, [0x1F2E, 0x399]),
      (0x1F97, [0x1F2F, 0x399]), (0x1F98, [0x1F28, 0x399]), (0x1F99, [0x1F29, 0x399]),
      (0x1F9A, [0x1F2A, 0x399]), (0x1F9B, [0x1F2B, 0x399]), (0x1F9C, [0x1F2C, 0x399]),
      (0x1F9D, [0x1F2D, 0x399]), (0x1F9E, [0x1F2E, 0x399]), (0x1F9F, [0x1F2F, 0x399]),
      (0x1FA0, [0x1F68, 0x399]), (0x1FA1, [0x1F69, 0x399]), (0x1FA2, [0x1F6A, 0x399]),
      (0x1FA3, [0x1F6B, 0x399]), (0x1FA4, [0x1F6C, 0x399]), (0x1FA5, [0x1F6D, 0x399]),
      (0x1FA6, [0x1F6E, 0x399]), (0x1FA7, [0x1F6F, 0x399]), (0x1FA8, [0x1F68, 0x399]),
      (0x1FA9, [0x1F69, 0x399]), (0x1FAA, [0x1F6A, 0x399]), (0x1FAB, [0x1F6B, 0x399]),
      (0x1FAC, [0x1F6C, 0x399]), (0x1FAD, [0x1F6D, 0x399]), (0x1FAE, [0x1F6E, 0x399]),
      (0x1FAF, [0x1F6F, 0x399]), (0x1FB2, [0x1FBA, 0x399]), (0x1FB3, [0x391, 0x399]),
      (0x1FB4, [0x386, 0x399]), (0x1FB6, [0x391, 0x342]), (0x1FB7, [0x391, 0x342, 0x399]),
      (0x1FBC, [0x391, 0x399]), (0x1FC2, [0x1FCA, 0x399]), (0x1FC3, [0x397, 0x399]),
      (0x1FC4, [0x389, 0x399]), (0x1FC6, [0x397, 0x342]), (0x1FC7, [0x397, 0x342, 0x399]),
      (0x1FCC, [0x397, 0x399]), (0x1FD2, [0x399, 0x308, 0x300]),
      (0x1FD3, [0x399, 0x308, 0x301]), (0x1FD6, [0x399, 0x342]),
      (0x1FD7, [0x399, 0x308, 0x342]), (0x1FE2, [0x3A5, 0x308, 0x300]),
      (0x1FE3, [0x3A5, 0x308, 0x301]), (0x1FE4, [0x3A1, 0x313]), (0x1FE6, [0x3A5, 0x342]),
      (0x1FE7, [0x3A5, 0x308, 0x342]), (0x1FF2, [0x1FFA, 0x399]), (0x1FF3, [0x3A9, 0x399]),
      (0x1FF4, [0x38F, 0x399]), (0x1FF6, [0x3A9, 0x342]), (0x1FF7, [0x3A9, 0x342, 0x399]),
      (0x1FFC, [0x3A9, 0x399]), (0xFB00, [0x46, 0x46]), (0xFB01, [0x46, 0x49]),
      (0xFB02, [0x46, 0x4C]), (0xFB03, [0x46, 0x46, 0x49]), (0xFB04, [0x46, 0x46, 0x4C]),
      (0xFB05, [0x53, 0x54]), (0xFB06, [0x53, 0x54]), (0xFB13, [0x544, 0x546]),
      (0xFB14, [0x544, 0x535]), (0xFB15, [0x544, 0x53B]), (0xFB16, [0x54E, 0x546]),
      (0xFB17, [0x544, 0x53D])]"

definition upperCaseRuns :: "(nat \<times> nat \<times> nat \<times> int) list" where
  "upperCaseRuns =
     [(0x61, 0x7A, 1, - 32), (0xB5, 0xB5, 1, 743), (0xE0, 0xF6, 1, - 32),
      (0xF8, 0xFE, 1, - 32), (0xFF, 0xFF, 1, 121), (0x101, 0x12F, 2, - 1),
      (0x131, 0x131, 1, - 232), (0x133, 0x137, 2, - 1), (0x13A, 0x148, 2, - 1),
      (0x14B, 0x177, 2, - 1), (0x17A, 0x17E, 2, - 1), (0x17F, 0x17F, 1, - 300),
      (0x180, 0x180, 1, 195), (0x183, 0x185, 2, - 1), (0x188, 0x188, 1, - 1),
      (0x18C, 0x18C, 1, - 1), (0x192, 0x192, 1, - 1), (0x195, 0x195, 1, 97),
      (0x199, 0x199, 1, - 1), (0x19A, 0x19A, 1, 163), (0x19E, 0x19E, 1, 130),
      (0x1A1, 0x1A5, 2, - 1), (0x1A8, 0x1A8, 1, - 1), (0x1AD, 0x1AD, 1, - 1),
      (0x1B0, 0x1B0, 1, - 1), (0x1B4, 0x1B6, 2, - 1), (0x1B9, 0x1B9, 1, - 1),
      (0x1BD, 0x1BD, 1, - 1), (0x1BF, 0x1BF, 1, 56), (0x1C5, 0x1C5, 1, - 1),
      (0x1C6, 0x1C6, 1, - 2), (0x1C8, 0x1C8, 1, - 1), (0x1C9, 0x1C9, 1, - 2),
      (0x1CB, 0x1CB, 1, - 1), (0x1CC, 0x1CC, 1, - 2), (0x1CE, 0x1DC, 2, - 1),
      (0x1DD, 0x1DD, 1, - 79), (0x1DF, 0x1EF, 2, - 1), (0x1F2, 0x1F2, 1, - 1),
      (0x1F3, 0x1F3, 1, - 2), (0x1F5, 0x1F5, 1, - 1), (0x1F9, 0x21F, 2, - 1),
      (0x223, 0x233, 2, - 1), (0x23C, 0x23C, 1, - 1), (0x23F, 0x240, 1, 10815),
      (0x242, 0x242, 1, - 1), (0x247, 0x24F, 2, - 1), (0x250, 0x250, 1, 10783),
      (0x251, 0x251, 1, 10780), (0x252, 0x252, 1, 10782), (0x253, 0x253, 1, - 210),
      (0x254, 0x254, 1, - 206), (0x256, 0x257, 1, - 205), (0x259, 0x259, 1, - 202),
      (0x25B, 0x25B, 1, - 203), (0x25C, 0x25C, 1, 42319), (0x260, 0x260, 1, - 205),
      (0x261, 0x261, 1, 42315), (0x263, 0x263, 1, - 207), (0x265, 0x265, 1, 42280),
      (0x266, 0x266, 1, 42308), (0x268, 0x268, 1, - 209), (0x269, 0x269, 1, - 211),
      (0x26A, 0x26A, 1, 42308), (0x26B, 0x26B, 1, 10743), (0x26C, 0x26C, 1, 42305),
      (0x26F, 0x26F, 1, - 211), (0x271, 0x271, 1, 10749), (0x272, 0x272, 1, - 213),
      (0x275, 0x275, 1, - 214), (0x27D, 0x27D, 1, 10727), (0x280, 0x280, 1, - 218),
      (0x282, 0x282, 1, 42307), (0x283, 0x283, 1, - 218), (0x287, 0x287, 1, 42282),
      (0x288, 0x288, 1, - 218), (0x289, 0x289, 1, - 69), (0x28A, 0x28B, 1, - 217),
      (0x28C, 0x28C, 1, - 71), (0x292, 0x292, 1, - 219), (0x29D, 0x29D, 1, 42261),
      (0x29E, 0x29E, 1, 42258), (0x345, 0x345, 1, 84), (0x371, 0x373, 2, - 1),
      (0x377, 0x377, 1, - 1), (0x37B, 0x37D, 1, 130), (0x3AC, 0x3AC, 1, - 38),
      (0x3AD, 0x3AF, 1, - 37), (0x3B1, 0x3C1, 1, - 32), (0x3C2, 0x3C2, 1, - 31),
      (0x3C3, 0x3CB, 1, - 32), (0x3CC, 0x3CC, 1, - 64), (0x3CD, 0x3CE, 1, - 63),
      (0x3D0, 0x3D0, 1, - 62), (0x3D1, 0x3D1, 1, - 57), (0x3D5, 0x3D5, 1, - 47),
      (0x3D6, 0x3D6, 1, - 54), (0x3D7, 0x3D7, 1, - 8), (0x3D9, 0x3EF, 2, - 1),
      (0x3F0, 0x3F0, 1, - 86), (0x3F1, 0x3F1, 1, - 80), (0x3F2, 0x3F2, 1, 7),
      (0x3F3, 0x3F3, 1, - 116), (0x3F5, 0x3F5, 1, - 96), (0x3F8, 0x3F8, 1, - 1),
      (0x3FB, 0x3FB, 1, - 1), (0x430, 0x44F, 1, - 32), (0x450, 0x45F, 1, - 80),
      (0x461, 0x481, 2, - 1), (0x48B, 0x4BF, 2, - 1), (0x4C2, 0x4CE, 2, - 1),
      (0x4CF, 0x4CF, 1, - 15), (0x4D1, 0x52F, 2, - 1), (0x561, 0x586, 1, - 48),
      (0x10D0, 0x10FA, 1, 3008), (0x10FD, 0x10FF, 1, 3008), (0x13F8, 0x13FD, 1, - 8),
      (0x1C80, 0x1C80, 1, - 6254), (0x1C81, 0x1C81, 1, - 6253), (0x1C82, 0x1C82, 1, - 6244),
      (0x1C83, 0x1C84, 1, - 6242), (0x1C85, 0x1C85, 1, - 6243), (0x1C86, 0x1C86, 1, - 6236),
      (0x1C87, 0x1C87, 1, - 6181), (0x1C88, 0x1C88, 1, 35266), (0x1D79, 0x1D79, 1, 35332),
      (0x1D7D, 0x1D7D, 1, 3814), (0x1D8E, 0x1D8E, 1, 35384), (0x1E01, 0x1E95, 2, - 1),
      (0x1E9B, 0x1E9B, 1, - 59), (0x1EA1, 0x1EFF, 2, - 1), (0x1F00, 0x1F07, 1, 8),
      (0x1F10, 0x1F15, 1, 8), (0x1F20, 0x1F27, 1, 8), (0x1F30, 0x1F37, 1, 8),
      (0x1F40, 0x1F45, 1, 8), (0x1F51, 0x1F57, 2, 8), (0x1F60, 0x1F67, 1, 8),
      (0x1F70, 0x1F71, 1, 74), (0x1F72, 0x1F75, 1, 86), (0x1F76, 0x1F77, 1, 100),
      (0x1F78, 0x1F79, 1, 128), (0x1F7A, 0x1F7B, 1, 112), (0x1F7C, 0x1F7D, 1, 126),
      (0x1FB0, 0x1FB1, 1, 8), (0x1FBE, 0x1FBE, 1, - 7205), (0x1FD0, 0x1FD1, 1, 8),
      (0x1FE0, 0x1FE1, 1, 8), (0x1FE5, 0x1FE5, 1, 7), (0x214E, 0x214E, 1, - 28),
      (0x2170, 0x217F, 1, - 16), (0x2184, 0x2184, 1, - 1), (0x24D0, 0x24E9, 1, - 26),
      (0x2C30, 0x2C5F, 1, - 48), (0x2C61, 0x2C61, 1, - 1), (0x2C65, 0x2C65, 1, - 10795),
      (0x2C66, 0x2C66, 1, - 10792), (0x2C68, 0x2C6C, 2, - 1), (0x2C73, 0x2C73, 1, - 1),
      (0x2C76, 0x2C76, 1, - 1), (0x2C81, 0x2CE3, 2, - 1), (0x2CEC, 0x2CEE, 2, - 1),
      (0x2CF3, 0x2CF3, 1, - 1), (0x2D00, 0x2D25, 1, - 7264), (0x2D27, 0x2D27, 1, - 7264),
      (0x2D2D, 0x2D2D, 1, - 7264), (0xA641, 0xA66D, 2, - 1), (0xA681, 0xA69B, 2, - 1),
      (0xA723, 0xA72F, 2, - 1), (0xA733, 0xA76F, 2, - 1), (0xA77A, 0xA77C, 2, - 1),
      (0xA77F, 0xA787, 2, - 1), (0xA78C, 0xA78C, 1, - 1), (0xA791, 0xA793, 2, - 1),
      (0xA794, 0xA794, 1, 48), (0xA797, 0xA7A9, 2, - 1), (0xA7B5, 0xA7C3, 2, - 1),
      (0xA7C8, 0xA7CA, 2, - 1), (0xA7D1, 0xA7D1, 1, - 1), (0xA7D7, 0xA7D9, 2, - 1),
      (0xA7F6, 0xA7F6, 1, - 1), (0xAB53, 0xAB53, 1, - 928), (0xAB70, 0xABBF, 1, - 38864),
      (0xFF41, 0xFF5A, 1, - 32)]"

definition upperFirst :: "nat \<Rightarrow> jsstring" where
  "upperFirst c =
     (case map_of upperCaseSpecial c of
        Some u \<Rightarrow> u
      | None \<Rightarrow>
          (case find (\<lambda>(lo, hi, step, d). lo \<le> c \<and> c \<le> hi \<and> (c - lo) mod step = 0)
                  upperCaseRuns of
             Some (lo, hi, step, d) \<Rightarrow> [nat (int c + d)]
           | None \<Rightarrow> [c]))"

text \<open>\<open>name.charAt(0).toUpperCase() + name.slice(1)\<close>.\<close>

fun capitalizeFirst :: "jsstring \<Rightarrow> jsstring" where
  "capitalizeFirst [] = []"
| "capitalizeFirst (c # cs) = upperFirst c @ cs"

text \<open>
  \<open>character.replace(/^\p{Emoji}\s*/u, '')\<close>: when the string starts with a code point
  that has the Emoji property, that one code point and the white space after it are
  removed. The property is a table of the Unicode Character Database in the version the
  JavaScript engine ships; it is the parameter \<open>E\<close>.
\<close>

fun stripLeadingEmoji :: "(nat \<Rightarrow> bool) \<Rightarrow> jsstring \<Rightarrow> jsstring" where
  "stripLeadingEmoji E [] = []"
| "stripLeadingEmoji E (c # cs) = (if E c then dropWhile isWhiteSpace cs else c # cs)"

text \<open>
  The entries of the Emoji property below U+0100 (\<open>#\<close>, \<open>*\<close>, the digits, the copyright
  and the registered sign) and three pictographs (cat face \<open>U+1F431\<close>, spider \<open>U+1F577\<close>,
  lion \<open>U+1F981\<close>): an excerpt of the table, for the examples below.
\<close>

definition emoji_excerpt :: "nat \<Rightarrow> bool" where
  "emoji_excerpt c =
     (c = 0x23 \<or> c = 0x2A \<or> (0x30 \<le> c \<and> c \<le> 0x39) \<or> c = 0xA9 \<or> c = 0xAE \<or>
      c = 0x1F431 \<or> c = 0x1F577 \<or> c = 0x1F981)"

section \<open>The instruction for the song writer\<close>

text \<open>\<open>getInstructionsForSong\<close> (index.tsx, lines 346-383).\<close>

definition baseInstructions :: jsstring where
  \<open>baseInstructions =
     lit ''\<newline>    You are a creative songwriter and visual artist.\<newline>    Your task is to create a short, catchy, and simple song that explains the user'' @ [0x27] @
     lit ''s query.\<newline>    The song must be from the perspective of the specified character.\<newline>    Generate a response in JSON format.\<newline>    The JSON object must contain two keys:\<newline>    1. "slides": An array of slide objects, where each slide contains a short line of "lyrics" and a corresponding descriptive "image_prompt" for an illustration to match that line.\<newline>    2. "music_style": A short string describing the musical style of the song (e.g., "upbeat pop", "gentle acoustic ballad", "epic cinematic score").\<newline>    Do NOT include any text, words, or letters in the image prompt itself.\<newline>    The song should have between 6 and 8 slides.\<newline>    No commentary, just the JSON object.''\<close>

definition spiderManSpecifics :: jsstring where
  "spiderManSpecifics =
     lit ''Use concepts like web-slinging, spider-sense, and great responsibility in the lyrics.''"

definition barbieSpecifics :: jsstring where
  "barbieSpecifics =
     lit ''Use themes of fashion, friendship, and her many careers in the lyrics.''"

definition simbaSpecifics :: jsstring where
  "simbaSpecifics =
     lit ''Use themes of the circle of life, the pride lands, and his jungle friends in the lyrics.''"

definition genericSpecifics :: "jsstring \<Rightarrow> jsstring" where
  "genericSpecifics characterNameForPrompt =
     lit ''Incorporate '' @ characterNameForPrompt @ [0x27] @
     lit ''s unique personality, skills, and famous concepts into the lyrics.''"

definition getInstructionsForSong :: "(nat \<Rightarrow> bool) \<Rightarrow> jsstring \<Rightarrow> jsstring" where
  "getInstructionsForSong E character =
     (let logicName = trim (stripLeadingEmoji E character);
          characterNameForPrompt = capitalizeFirst logicName;
          key = toLowerCase logicName;
          characterSpecifics =
            (if key = lit ''spider-man'' then spiderManSpecifics
             else if key = lit ''barbie'' then barbieSpecifics
             else if key = lit ''simba'' then simbaSpecifics
             else genericSpecifics characterNameForPrompt)
      in baseInstructions @ lit '' '' @ characterSpecifics)"

subsection \<open>The instruction as the specification words it\<close>

text \<open>
  \<open>ci_equal m k\<close>: the name \<open>m\<close> is the table entry \<open>k\<close> up to the case of its letters.
  \<open>instructionsForName\<close> is the choice the specification describes for a name: the
  curated guidance of the narrator it matches, and otherwise the generic guidance
  built around a name. \<open>genericInstructions\<close> is the generic instruction around a name,
  character for character.
\<close>

fun ci_equal :: "jsstring \<Rightarrow> jsstring \<Rightarrow> bool" where
  "ci_equal [] [] = True"
| "ci_equal (a # m) (b # k) = (lowerCP a = lowerCP b \<and> ci_equal m k)"
| "ci_equal m k = False"

definition genericInstructions :: "jsstring \<Rightarrow> jsstring" where
  "genericInstructions name = baseInstructions @ lit '' '' @ genericSpecifics name"

definition instructionsForName :: "jsstring \<Rightarrow> jsstring" where
  "instructionsForName m =
     (if ci_equal m (lit ''spider-man'') then baseInstructions @ lit '' '' @ spiderManSpecifics
      else if ci_equal m (lit ''barbie'') then baseInstructions @ lit '' '' @ barbieSpecifics
      else if ci_equal m (lit ''simba'') then baseInstructions @ lit '' '' @ simbaSpecifics
      else genericInstructions (capitalizeFirst m))"

text \<open>
  What the specification calls a leading emoji. The Emoji property holds of the code
  points that can stand for an emoji alone, and also of the parts emoji sequences are
  put together from. \<open>emojiComponent\<close> is the Emoji_Component property of the Unicode
  Character Database: \<open>#\<close>, \<open>*\<close> and the digits (the bases of the keycap sequences), ZERO
  WIDTH JOINER, COMBINING ENCLOSING KEYCAP, VARIATION SELECTOR-16, the regional
  indicators, the skin-tone modifiers, the hair components and the tag characters.
  \<open>emojiContinues c\<close>: the code point \<open>c\<close> carries on an emoji that starts before it (a
  variation selector, a joiner, the keycap mark, a skin-tone modifier or a tag).

  \<open>typed_name_spec E narrator\<close> is the name typed in an input: the input without its
  leading emoji, trimmed. It is given for the inputs that start with no code point of
  the Emoji property, and for those that start with an emoji of one code point; it is
  left open (\<open>None\<close>) for an input that starts with a component or with an emoji
  sequence of several code points.
\<close>

definition emojiComponent :: "nat \<Rightarrow> bool" where
  "emojiComponent c =
     (c = 0x23 \<or> c = 0x2A \<or> (0x30 \<le> c \<and> c \<le> 0x39) \<or> c = 0x200D \<or> c = 0x20E3 \<or>
      c = 0xFE0F \<or> (0x1F1E6 \<le> c \<and> c \<le> 0x1F1FF) \<or> (0x1F3FB \<le> c \<and> c \<le> 0x1F3FF) \<or>
      (0x1F9B0 \<le> c \<and> c \<le> 0x1F9B3) \<or> (0xE0020 \<le> c \<and> c \<le> 0xE007F))"

definition emojiContinues :: "nat \<Rightarrow> bool" where
  "emojiContinues c =
     (c = 0xFE0E \<or> c = 0xFE0F \<or> c = 0x200D \<or> c = 0x20E3 \<or>
      (0x1F3FB \<le> c \<and> c \<le> 0x1F3FF) \<or> (0xE0020 \<le> c \<and> c \<le> 0xE007F))"

fun typed_name_spec :: "(nat \<Rightarrow> bool) \<Rightarrow> jsstring \<Rightarrow> jsstring option" where
  "typed_name_spec E [] = Some []"
| "typed_name_spec E (c # cs) =
     (if \<not> E c then Some (trim (c # cs))
      else if emojiComponent c then None
      else (case cs of
              [] \<Rightarrow> Some []
            | d # ds \<Rightarrow> if emojiContinues d then None else Some (trim cs)))"

section \<open>Background track selection\<close>

text \<open>\<open>selectBeatForStyle\<close> (index.tsx, lines 282-306).\<close>

definition selectBeatForStyle :: "jsstring \<Rightarrow> jsstring" where
  "selectBeatForStyle style =
     (let lowerStyle = toLowerCase style in
      if includes_str lowerStyle (lit ''upbeat'') \<or>
         includes_str lowerStyle (lit ''pop'') \<or>
         includes_str lowerStyle (lit ''happy'') \<or>
         includes_str lowerStyle (lit ''rock'')
      then lit ''beat-upbeat''
      else if includes_str lowerStyle (lit ''ballad'') \<or>
         includes_str lowerStyle (lit ''gentle'') \<or>
         includes_str lowerStyle (lit ''slow'') \<or>
         includes_str lowerStyle (lit ''acoustic'')
      then lit ''beat-ballad''
      else if includes_str lowerStyle (lit ''epic'') \<or>
         includes_str lowerStyle (lit ''cinematic'') \<or>
         includes_str lowerStyle (lit ''score'')
      then lit ''beat-epic''
      else lit ''beat-upbeat'')"

subsection \<open>The selection as the specification words it\<close>

text \<open>
  The specification speaks of three tracks, of ordered keyword groups and of a
  case-insensitive keyword match. \<open>ci_occurs k s\<close> says that some contiguous run of \<open>s\<close>
  equals the keyword \<open>k\<close> up to the case of its letters; it is defined on the style as
  typed, without lower-casing the whole string first.
\<close>

datatype track = TrackA | TrackB | TrackC

fun track_id :: "track \<Rightarrow> jsstring" where
  "track_id TrackA = lit ''beat-upbeat''"
| "track_id TrackB = lit ''beat-ballad''"
| "track_id TrackC = lit ''beat-epic''"

fun ci_prefix :: "jsstring \<Rightarrow> jsstring \<Rightarrow> bool" where
  "ci_prefix [] s = True"
| "ci_prefix (a # k) [] = False"
| "ci_prefix (a # k) (c # s) = (lowerCP a = lowerCP c \<and> ci_prefix k s)"

fun ci_occurs :: "jsstring \<Rightarrow> jsstring \<Rightarrow> bool" where
  "ci_occurs k [] = (k = [])"
| "ci_occurs k (c # s) = (ci_prefix k (c # s) \<or> ci_occurs k s)"

definition upbeat_group :: "jsstring list" where
  "upbeat_group = [lit ''upbeat'', lit ''pop'', lit ''happy'', lit ''rock'']"

definition ballad_group :: "jsstring list" where
  "ballad_group = [lit ''ballad'', lit ''gentle'', lit ''slow'', lit ''acoustic'']"

definition epic_group :: "jsstring list" where
  "epic_group = [lit ''epic'', lit ''cinematic'', lit ''score'']"

definition group_matches :: "jsstring list \<Rightarrow> jsstring \<Rightarrow> bool" where
  "group_matches g style = list_ex (\<lambda>k. ci_occurs k style) g"

definition select_track_spec :: "jsstring \<Rightarrow> track" where
  "select_track_spec style =
     (if group_matches upbeat_group style then TrackA
      else if group_matches ballad_group style then TrackB
      else if group_matches epic_group style then TrackC
      else TrackA)"

section \<open>Data model and application state\<close>

text \<open>
  The interfaces \<open>SlideData\<close>, \<open>SongSlide\<close>, \<open>SongStructure\<close> and \<open>TikTok\<close> of index.tsx. Two
  fields are renamed, since record fields share one name space: \<open>SongSlide.lyrics\<close> is
  \<open>song_lyrics\<close> and \<open>SongStructure.slides\<close> is \<open>song_slides\<close>. \<open>song_slides\<close> and
  \<open>music_style\<close> are optional: the code tests both for absence after \<open>JSON.parse\<close>.

  The \<open>id\<close> of a short is the decimal string of \<open>Date.now()\<close>; the model keeps the number
  it denotes (what \<open>Number(id)\<close> gives back) in the field \<open>tiktok_id\<close>. \<open>element\<close> is the
  handle of the DOM node of the short in the feed. A \<open>savable_tiktok\<close> is a short without
  the \<open>element\<close> field: the shape of the records in the IndexedDB object store.
\<close>

record slide_data =
  lyrics :: jsstring
  imageSrc :: jsstring

record song_slide =
  song_lyrics :: jsstring
  image_prompt :: jsstring

record song_structure =
  song_slides :: "song_slide list option"
  music_style :: "jsstring option"

record savable_tiktok =
  tiktok_id :: nat
  slides :: "slide_data list"
  character :: jsstring
  prompt :: jsstring
  instrumentalId :: "jsstring option"
  voiceName :: "jsstring option"

record tiktok = savable_tiktok +
  element :: "nat option"

text \<open>What the DOM shows: the items of the feed and the thumbnails of the gallery.\<close>

record slide_element =
  img_src :: jsstring
  creator_name :: jsstring
  prompt_text :: jsstring
  answer_markdown :: jsstring

record feed_item =
  node :: nat
  item_tiktok_id :: nat
  slide_elements :: "slide_element list"

record thumbnail =
  thumb_tiktok_id :: nat
  thumb_img :: jsstring
  thumb_prompt :: jsstring

datatype gallery_content = Placeholder | Thumbnails "thumbnail list"

text \<open>
  Calls that leave the page: requests to the model, audio and speech commands, scrolling
  and focus. They are logged in the order the code makes them.
\<close>

datatype effect =
    TextRequest jsstring
  | ImageRequest jsstring
  | AudioPause jsstring
  | AudioPlay jsstring
  | SpeechCancel
  | SpeechSpeak jsstring "jsstring option"
  | ScrollFeedToTop
  | ScrollSlideIntoView nat
  | FocusInput

text \<open>
  The module-level variables of index.tsx, and the parts of the page its functions read
  and write. \<open>aiReady\<close> says that \<open>ai\<close> holds a client, \<open>db\<close> is the object store once
  \<open>initDB\<close> has opened it (its records in the order \<open>getAll\<close> lists them), \<open>speaking\<close> is
  \<open>speechSynthesis.speaking\<close>, \<open>nextNode\<close> numbers the DOM nodes \<open>createElement\<close> makes.
  Messages on the console are not modelled.
\<close>

record app =
  isPlaying :: bool
  isGenerating :: bool
  selectedStyle :: jsstring
  savedTikToks :: "tiktok list"
  activeTikTokContainer :: "nat option"
  currentAudio :: "jsstring option"
  backgroundAudio :: "jsstring option"
  aiReady :: bool
  db :: "savable_tiktok list option"
  userInput :: jsstring
  voiceSelector :: jsstring
  characterSelector :: jsstring
  customCharacterInput :: jsstring
  errorHtml :: jsstring
  errorHidden :: bool
  initialMessageHidden :: bool
  slideshowHidden :: bool
  feed :: "feed_item list"
  gallery :: gallery_content
  generateBtnDisabled :: bool
  generateBtnText :: jsstring
  errorModalMessage :: jsstring
  errorModalHidden :: bool
  modalOverlayHidden :: bool
  apiKeyModalHidden :: bool
  slideshowPaused :: bool
  speaking :: bool
  nextNode :: nat
  effects :: "effect list"

text \<open>
  How a block of code ends: it returns, or it throws \<open>e\<close> (the text \<open>String(e)\<close> of the
  error); either way with the state it has reached.
\<close>

datatype 'a completion = Returned 'a | Threw jsstring 'a

fun completion_state :: "'a completion \<Rightarrow> 'a" where
  "completion_state (Returned s) = s"
| "completion_state (Threw e s) = s"

section \<open>Modal and playback controls\<close>

text \<open>\<open>showErrorPopup\<close> (lines 246-250) and \<open>stopSlideshow\<close> (lines 732-742).\<close>

definition showErrorPopup :: "jsstring \<Rightarrow> app \<Rightarrow> app" where
  "showErrorPopup message s =
     s\<lparr>errorModalMessage := message, modalOverlayHidden := False, errorModalHidden := False\<rparr>"

definition stopSlideshow :: "app \<Rightarrow> app" where
  "stopSlideshow s =
     (let s1 = s\<lparr>isPlaying := False, slideshowPaused := True\<rparr>;
          s2 = (case currentAudio s1 of
                  None \<Rightarrow> s1
                | Some a \<Rightarrow> s1\<lparr>currentAudio := None, effects := effects s1 @ [AudioPause a]\<rparr>)
      in if speaking s2 then s2\<lparr>speaking := False, effects := effects s2 @ [SpeechCancel]\<rparr>
         else s2)"

section \<open>Persistence\<close>

text \<open>
  The object store has the key path \<open>id\<close>: \<open>put\<close> replaces the record with the same id and
  adds the record when there is none.
\<close>

definition store_put :: "savable_tiktok \<Rightarrow> savable_tiktok list \<Rightarrow> savable_tiktok list" where
  "store_put r store =
     (if tiktok_id r \<in> set (map tiktok_id store)
      then map (\<lambda>x. if tiktok_id x = tiktok_id r then r else x) store
      else store @ [r])"

text \<open>
  \<open>const {element, ...savableTikTok} = tiktok\<close> (line 153), and the cast
  \<open>request.result as TikTok[]\<close> (line 177) of a stored record, which has no \<open>element\<close>.
\<close>

definition savableTikTok :: "tiktok \<Rightarrow> savable_tiktok" where
  "savableTikTok t =
     \<lparr>tiktok_id = tiktok_id t, slides = slides t, character = character t,
      prompt = prompt t, instrumentalId = instrumentalId t, voiceName = voiceName t\<rparr>"

definition asTikTok :: "savable_tiktok \<Rightarrow> tiktok" where
  "asTikTok r =
     \<lparr>tiktok_id = tiktok_id r, slides = slides r, character = character r,
      prompt = prompt r, instrumentalId = instrumentalId r, voiceName = voiceName r,
      element = None\<rparr>"

text \<open>
  \<open>saveTikTokToDB\<close> (lines 146-164). \<open>putError\<close> is what the backend makes of the \<open>put\<close>
  request: \<open>None\<close> when it calls \<open>onsuccess\<close>, the error when it calls \<open>onerror\<close> (or when
  opening the transaction throws). The promise rejects (\<open>Inl\<close>) or resolves (\<open>Inr\<close>).
\<close>

definition saveTikTokToDB :: "jsstring option \<Rightarrow> tiktok \<Rightarrow> app \<Rightarrow> jsstring + app" where
  "saveTikTokToDB putError tiktok s =
     (case db s of
        None \<Rightarrow> Inl (lit ''Error: Database is not initialized.'')
      | Some store \<Rightarrow>
          (case putError of
             Some e \<Rightarrow> Inl e
           | None \<Rightarrow> Inr (s\<lparr>db := Some (store_put (savableTikTok tiktok) store)\<rparr>)))"

section \<open>Rendering\<close>

text \<open>
  \<open>createSlideElement\<close> (lines 560-585) and \<open>addTikTokToFeed\<close> (lines 536-558). The slide
  keeps the Markdown source of the lyrics; the renderer is a library. \<open>addTikTokToFeed\<close>
  writes the new node into \<open>tiktok.element\<close>: the function returns the short as it is
  after the call, and the caller puts it back where the same object is held.
\<close>

definition createSlideElement :: "slide_data \<Rightarrow> jsstring \<Rightarrow> jsstring \<Rightarrow> slide_element" where
  "createSlideElement slideData promptText characterName =
     \<lparr>img_src = imageSrc slideData, creator_name = capitalizeFirst characterName,
      prompt_text = promptText, answer_markdown = lyrics slideData\<rparr>"

definition addTikTokToFeed :: "tiktok \<Rightarrow> app \<Rightarrow> tiktok \<times> app" where
  "addTikTokToFeed t s =
     (let tiktokContainer =
            \<lparr>node = nextNode s, item_tiktok_id = tiktok_id t,
             slide_elements =
               map (\<lambda>slideData. createSlideElement slideData (prompt t) (character t)) (slides t)\<rparr>
      in (t\<lparr>element := Some (nextNode s)\<rparr>,
          s\<lparr>feed := tiktokContainer # feed s, nextNode := nextNode s + 1\<rparr>))"

fun addAllToFeed :: "tiktok list \<Rightarrow> app \<Rightarrow> tiktok list \<times> app" where
  "addAllToFeed [] s = ([], s)"
| "addAllToFeed (t # ts) s =
     (let (t', s1) = addTikTokToFeed t s;
          (ts', s2) = addAllToFeed ts s1
      in (t' # ts', s2))"

text \<open>
  \<open>renderHistoryGallery\<close> (lines 587-604). \<open>tiktok.slides[0].imageSrc\<close> throws a TypeError
  for a short without slides; the thumbnails appended before it stay in the gallery.
\<close>

definition noFirstSlideError :: jsstring where
  "noFirstSlideError =
     lit ''TypeError: Cannot read properties of undefined (reading '' @ [0x27] @
     lit ''imageSrc'' @ [0x27] @ lit '')''"

fun renderThumbnails :: "tiktok list \<Rightarrow> thumbnail list \<Rightarrow> thumbnail list completion" where
  "renderThumbnails [] acc = Returned acc"
| "renderThumbnails (t # ts) acc =
     (case slides t of
        [] \<Rightarrow> Threw noFirstSlideError acc
      | slide0 # _ \<Rightarrow>
          renderThumbnails ts
            (acc @ [\<lparr>thumb_tiktok_id = tiktok_id t, thumb_img = imageSrc slide0,
                     thumb_prompt = prompt t\<rparr>]))"

definition renderHistoryGallery :: "app \<Rightarrow> app completion" where
  "renderHistoryGallery s =
     (if savedTikToks s = [] then Returned (s\<lparr>gallery := Placeholder\<rparr>)
      else (case renderThumbnails (savedTikToks s) [] of
              Returned thumbs \<Rightarrow> Returned (s\<lparr>gallery := Thumbnails thumbs\<rparr>)
            | Threw e thumbs \<Rightarrow> Threw e (s\<lparr>gallery := Thumbnails thumbs\<rparr>)))"

section \<open>Saving a new short and loading the history\<close>

text \<open>
  \<open>saveAndRenderNewTikTok\<close> (lines 518-534). The function suspends once, at
  \<open>await saveTikTokToDB(tiktok)\<close>; the first component of the result lists the state at
  that point, the second is the state when the function has finished. The short put at
  the head of \<open>savedTikToks\<close> and the argument of \<open>addTikTokToFeed\<close> are one object, so
  the head of the list is the short with its \<open>element\<close> set afterwards.
\<close>

definition saveFailed :: "app \<Rightarrow> app" where
  "saveFailed s =
     showErrorPopup (lit ''Failed to save your new Short. Storage might be full or corrupted.'')
       (s\<lparr>savedTikToks := tl (savedTikToks s)\<rparr>)"

definition saveAndRenderNewTikTok :: "jsstring option \<Rightarrow> tiktok \<Rightarrow> app \<Rightarrow> app list \<times> app" where
  "saveAndRenderNewTikTok putError t s =
     (let s1 = s\<lparr>savedTikToks := t # savedTikToks s\<rparr> in
      (case saveTikTokToDB putError t s1 of
         Inl e \<Rightarrow> ([s1], saveFailed s1)
       | Inr s2 \<Rightarrow>
           (let (t', s3) = addTikTokToFeed t s2;
                s4 = s3\<lparr>savedTikToks := t' # tl (savedTikToks s3)\<rparr>
            in (case renderHistoryGallery s4 of
                  Threw e s5 \<Rightarrow> ([s1], saveFailed s5)
                | Returned s5 \<Rightarrow> ([s1], s5\<lparr>effects := effects s5 @ [ScrollFeedToTop]\<rparr>)))))"

text \<open>
  \<open>loadHistoryFromDB\<close> (lines 166-197). \<open>getAllError\<close> is what the backend makes of the
  \<open>getAll\<close> request. The comparator \<open>Number(b.id) - Number(a.id)\<close> sorts by descending id,
  and \<open>Array.prototype.sort\<close> is stable. The shorts are added to the feed from the oldest
  to the newest, each call setting the \<open>element\<close> of an object of \<open>savedTikToks\<close>. An
  exception in the \<open>onsuccess\<close> handler leaves the promise unsettled: \<open>Threw\<close> gives the
  state the handler left.
\<close>

definition loadHistoryFromDB :: "jsstring option \<Rightarrow> app \<Rightarrow> app completion" where
  "loadHistoryFromDB getAllError s =
     (case db s of
        None \<Rightarrow> Returned s
      | Some store \<Rightarrow>
          (case getAllError of
             Some e \<Rightarrow> Threw e s
           | None \<Rightarrow>
               (let loadedTikToks = sort_key (\<lambda>t. - int (tiktok_id t)) (map asTikTok store);
                    s1 = s\<lparr>savedTikToks := loadedTikToks\<rparr>
                in if length (savedTikToks s1) > 0 then
                     (let s2 = s1\<lparr>initialMessageHidden := True, slideshowHidden := False\<rparr>;
                          (ts, s3) = addAllToFeed (rev (savedTikToks s2)) s2;
                          s4 = s3\<lparr>savedTikToks := rev ts\<rparr>
                      in renderHistoryGallery s4)
                   else Returned s1)))"

section \<open>Image generation\<close>

text \<open>
  \<open>STYLE_PROMPTS\<close> (lines 308-320) and \<open>generateImageFromPrompt\<close> (lines 322-344).
  \<open>STYLE_PROMPTS[selectedStyle]\<close> is a property lookup on an object literal: for a key
  that is none of the six it finds what every object inherits under that name
  (\<open>constructor\<close>, \<open>toString\<close>, ...), and the template literal takes the text of that value. The
  table of these texts belongs to the engine; it is the parameter \<open>inherited\<close>, which is
  \<open>None\<close> for a name no object inherits.
\<close>

definition STYLE_PROMPTS :: "(jsstring \<times> jsstring) list" where
  "STYLE_PROMPTS =
     [(lit ''anime'',
       lit ''In the style of modern vibrant anime, detailed characters and backgrounds, cinematic lighting:''),
      (lit ''comic'',
       lit ''In the style of a classic American comic book, with bold lines, Ben-Day dots, and a dynamic panel layout:''),
      (lit ''photoreal'', lit ''A photorealistic, high-detail, cinematic 4K photo:''),
      (lit ''storybook'',
       lit ''A whimsical and charming children'' @ [0x27] @
       lit ''s storybook illustration, with soft textures and a warm color palette:''),
      (lit ''retro'',
       lit ''In the style of 16-bit pixel art, vibrant color palette, reminiscent of a classic SNES RPG game:''),
      (lit ''cinematic'',
       lit ''A cinematic movie still, dramatic lighting, epic scope, high detail, wide-angle shot:'')]"

definition finalPromptFor ::
  "(jsstring \<Rightarrow> jsstring option) \<Rightarrow> jsstring \<Rightarrow> jsstring \<Rightarrow> jsstring" where
  "finalPromptFor inherited style imagePrompt =
     (let stylePrefix =
            (case map_of STYLE_PROMPTS style of
               Some p \<Rightarrow> p
             | None \<Rightarrow> (case inherited style of Some p \<Rightarrow> p | None \<Rightarrow> []))
      in stylePrefix @ lit '' A 9:16 aspect ratio image of: '' @ imagePrompt)"

text \<open>
  What comes back for one image request: the request rejects; or the response has no
  \<open>candidates[0].content.parts\<close> to iterate, which is a TypeError; or it has parts, each
  with or without \<open>inlineData\<close> (a MIME type and base64 data, possibly empty).
\<close>

datatype image_outcome =
    ImageRejected jsstring
  | ImageNoParts jsstring
  | ImageParts "(jsstring \<times> jsstring) option list"

fun firstInlineImage :: "(jsstring \<times> jsstring) option list \<Rightarrow> jsstring option" where
  "firstInlineImage [] = None"
| "firstInlineImage (None # parts) = firstInlineImage parts"
| "firstInlineImage (Some (mimeType, base64ImageBytes) # parts) =
     (if base64ImageBytes \<noteq> []
      then Some (lit ''data:'' @ mimeType @ lit '';base64,'' @ base64ImageBytes)
      else firstInlineImage parts)"

definition imageFromResponse :: "image_outcome \<Rightarrow> jsstring + jsstring" where
  "imageFromResponse r =
     (case r of
        ImageRejected e \<Rightarrow> Inl e
      | ImageNoParts e \<Rightarrow> Inl e
      | ImageParts parts \<Rightarrow>
          (case firstInlineImage parts of
             Some src \<Rightarrow> Inr src
           | None \<Rightarrow>
               Inl (lit ''Error: Image generation failed. The model did not return an image.'')))"

text \<open>
  \<open>Promise.all\<close>: the values in the order of the promises when all of them fulfil, and a
  rejection otherwise. The reason is the one of the promise that rejects first in time;
  the model takes the first in the list.
\<close>

fun promiseAll :: "(jsstring + 'a) list \<Rightarrow> jsstring + 'a list" where
  "promiseAll [] = Inr []"
| "promiseAll (Inl e # rs) = Inl e"
| "promiseAll (Inr v # rs) = (case promiseAll rs of Inl e \<Rightarrow> Inl e | Inr vs \<Rightarrow> Inr (v # vs))"

section \<open>Handlers that run while a generation is suspended\<close>

text \<open>
  While a call of \<open>generate\<close> awaits, the page goes on handling events. Two of the
  listeners of \<open>setupEventListeners\<close> write variables that \<open>generate\<close> and
  \<open>generateImageFromPrompt\<close> read again after an \<open>await\<close>: the click listener of the style
  selector (lines 808-821) writes \<open>selectedStyle\<close>, and \<open>handleSaveApiKey\<close> (lines 268-278)
  replaces the client \<open>ai\<close> through \<open>initializeGenAI\<close> (lines 213-227).

  \<open>StyleClicked d\<close> is a click in the style selector, \<open>d\<close> the \<open>data-style\<close> attribute of the
  button it hits (\<open>None\<close> when it hits no button, or a button without the attribute); which
  button carries the class \<open>selected\<close> is not part of the state. \<open>ApiKeySaved o\<close> is a click
  on the save button of the key dialog; \<open>o\<close> is what \<open>initializeGenAI\<close> then meets: no key
  (none typed and none in the environment), a client constructed from the key, or a
  constructor that throws \<open>e\<close>. The local storage is not part of the state.

  The other listeners (playback and replay, the theme, the closing of the dialogs, the
  gallery, the keyboard and the two selectors) write none of the variables that are read
  after an \<open>await\<close> of \<open>generate\<close>, and a call of \<open>generate\<close> made meanwhile returns at its
  guard; they are left out of the events.
\<close>

datatype client_outcome = NoApiKey | ClientCreated | ClientFailed jsstring

datatype page_event = StyleClicked "jsstring option" | ApiKeySaved client_outcome

definition styleClicked :: "jsstring option \<Rightarrow> app \<Rightarrow> app" where
  "styleClicked d s =
     (case d of
        None \<Rightarrow> s
      | Some style \<Rightarrow> if style \<noteq> [] then s\<lparr>selectedStyle := style\<rparr> else s)"

definition closeApiKeyModal :: "app \<Rightarrow> app" where
  "closeApiKeyModal s = s\<lparr>modalOverlayHidden := True, apiKeyModalHidden := True\<rparr>"

definition initializeGenAI :: "client_outcome \<Rightarrow> app \<Rightarrow> app" where
  "initializeGenAI outcome s =
     (case outcome of
        ClientCreated \<Rightarrow> s\<lparr>aiReady := True\<rparr>
      | ClientFailed e \<Rightarrow>
          showErrorPopup (lit ''Failed to initialize Gemini Client: '' @ e) (s\<lparr>aiReady := False\<rparr>)
      | NoApiKey \<Rightarrow> s\<lparr>aiReady := False\<rparr>)"

definition handleSaveApiKey :: "client_outcome \<Rightarrow> app \<Rightarrow> app" where
  "handleSaveApiKey outcome s = initializeGenAI outcome (closeApiKeyModal s)"

fun handle_event :: "page_event \<Rightarrow> app \<Rightarrow> app" where
  "handle_event (StyleClicked d) s = styleClicked d s"
| "handle_event (ApiKeySaved outcome) s = handleSaveApiKey outcome s"

fun run_events :: "page_event list \<Rightarrow> app \<Rightarrow> app" where
  "run_events [] s = s"
| "run_events (ev # evs) s = run_events evs (handle_event ev s)"

section \<open>The host of one generation\<close>

text \<open>
  What the world outside the page does during one call of \<open>generate\<close>: the Emoji
  property table of the engine and the texts of the properties every object inherits,
  the outcome of the text request (it rejects, or it
  resolves with \<open>result.text\<close> present or not), \<open>JSON.parse\<close> on a text, the outcome of the
  image request number \<open>i\<close> for a prompt, whether the page has an audio element with a
  given id, the clock, the outcome of the \<open>put\<close> request, and the events the page handles
  while the text request is awaited and while the image requests are awaited. The save
  is awaited inside \<open>saveAndRenderNewTikTok\<close>, which reads afterwards none of the
  variables the handlers write; the host lists no events for it.
\<close>

datatype text_outcome = TextRejected jsstring | TextResolved "jsstring option"

datatype parse_outcome = ParseThrows jsstring | Parsed "song_structure option"

record host =
  emojiProperty :: "nat \<Rightarrow> bool"
  inheritedProperty :: "jsstring \<Rightarrow> jsstring option"
  textResult :: text_outcome
  jsonParse :: "jsstring \<Rightarrow> parse_outcome"
  imageResult :: "nat \<Rightarrow> jsstring \<Rightarrow> image_outcome"
  audioElement :: "jsstring \<Rightarrow> bool"
  dateNow :: nat
  putError :: "jsstring option"
  eventsDuringText :: "page_event list"
  eventsDuringImages :: "page_event list"

text \<open>
  \<open>generateImageFromPrompt\<close>, called in the state \<open>s\<close> for the prompt number \<open>i\<close>: the
  requests it sends and how its promise settles. The function reads \<open>selectedStyle\<close> and
  \<open>ai\<close> when it is called. With \<open>ai\<close> undefined the expression \<open>ai.models\<close> throws a
  TypeError before any request is made (the text is the one of V8), and the promise
  rejects with it.
\<close>

definition clientUndefined :: jsstring where
  "clientUndefined =
     lit ''TypeError: Cannot read properties of undefined (reading '' @ [0x27] @
     lit ''models'' @ [0x27] @ lit '')''"

definition generateImageFromPrompt ::
  "host \<Rightarrow> app \<Rightarrow> nat \<Rightarrow> jsstring \<Rightarrow> effect list \<times> (jsstring + jsstring)" where
  "generateImageFromPrompt h s i imagePrompt =
     (let finalPrompt = finalPromptFor (inheritedProperty h) (selectedStyle s) imagePrompt
      in if aiReady s
         then ([ImageRequest finalPrompt], imageFromResponse (imageResult h i finalPrompt))
         else ([], Inl clientUndefined))"

section \<open>Generation\<close>

text \<open>
  \<open>generate\<close> (lines 385-514), in the order of the source. The function suspends at three
  \<open>await\<close>s: the text request, \<open>Promise.all\<close> of the image requests, and the save. Each
  part returns, beside its result, the list of the states in which the call suspends,
  one for each \<open>await\<close> it reaches. The handlers of the events that the host lists for an
  \<open>await\<close> run from that state on, and the call resumes in the state they leave.
\<close>

text \<open>\<open>JSON.parse(undefined)\<close> throws a SyntaxError (the text is the one of V8).\<close>

definition undefinedIsNotJson :: jsstring where
  \<open>undefinedIsNotJson = lit ''SyntaxError: "undefined" is not valid JSON''\<close>

definition songDataOf :: "host \<Rightarrow> jsstring + song_structure option" where
  "songDataOf h =
     (case textResult h of
        TextRejected e \<Rightarrow> Inl e
      | TextResolved None \<Rightarrow> Inl undefinedIsNotJson
      | TextResolved (Some txt) \<Rightarrow>
          (case jsonParse h txt of ParseThrows e \<Rightarrow> Inl e | Parsed v \<Rightarrow> Inr v))"

text \<open>Lines 454-468: the background music. Rewinding and the volume are not logged.\<close>

definition startBackgroundMusic :: "host \<Rightarrow> jsstring \<Rightarrow> app \<Rightarrow> app" where
  "startBackgroundMusic h beatId s =
     (let s1 = (case backgroundAudio s of
                  None \<Rightarrow> s
                | Some a \<Rightarrow> s\<lparr>effects := effects s @ [AudioPause a]\<rparr>)
      in if audioElement h beatId
         then s1\<lparr>backgroundAudio := Some beatId,
                 effects := effects s1 @ [AudioPlay beatId]\<rparr>
         else s1)"

text \<open>
  Lines 470-501: the image requests, the new short and its save. The calls of
  \<open>generateImageFromPrompt\<close> are made one after the other by \<open>imagePrompts.map\<close>, each
  running up to its \<open>await\<close>, with no handler in between: all of them see the state \<open>s\<close>.
\<close>

definition imageStep ::
  "host \<Rightarrow> jsstring \<Rightarrow> jsstring \<Rightarrow> jsstring \<Rightarrow> song_slide list \<Rightarrow> jsstring \<Rightarrow> app
     \<Rightarrow> app list \<times> app completion" where
  "imageStep h message voiceChoice finalCharacter songStructure beatId s =
     (let imagePrompts = map image_prompt songStructure;
          calls = map (\<lambda>(i, p). generateImageFromPrompt h s i p) (enumerate 0 imagePrompts);
          s1 = s\<lparr>effects := effects s @ concat (map fst calls)\<rparr>;
          s2 = run_events (eventsDuringImages h) s1
      in (case promiseAll (map snd calls) of
            Inl imageError \<Rightarrow>
              ([s1],
               Returned
                 (showErrorPopup
                    (lit ''Failed to generate images: '' @ imageError @ lit ''. Please try again.'')
                    s2))
          | Inr images \<Rightarrow>
              (let newTikTok =
                     \<lparr>tiktok_id = dateNow h,
                      slides =
                        map (\<lambda>index. \<lparr>lyrics = song_lyrics (songStructure ! index),
                                       imageSrc = images ! index\<rparr>)
                          [0..<length songStructure],
                      character = finalCharacter, prompt = message,
                      instrumentalId = Some beatId, voiceName = Some voiceChoice,
                      element = None\<rparr>
               in if length (slides newTikTok) > 0
                  then (let (awaits, s3) = saveAndRenderNewTikTok (putError h) newTikTok s2
                        in (s1 # awaits, Returned s3))
                  else ([s1],
                        Threw (lit ''Error: No content was generated. Please try again.'') s2))))"

text \<open>Lines 407-501: the body of the \<open>try\<close>.\<close>

definition generate_try :: "host \<Rightarrow> jsstring \<Rightarrow> jsstring \<Rightarrow> app \<Rightarrow> app list \<times> app completion" where
  "generate_try h message voiceChoice s =
     (let customCharacter = trim (customCharacterInput s);
          finalCharacter =
            (if characterSelector s = lit ''custom'' then customCharacter
             else characterSelector s)
      in if finalCharacter = []
         then ([], Returned (showErrorPopup (lit ''Please enter or select a narrator.'') s))
         else
           (let instructions = getInstructionsForSong (emojiProperty h) finalCharacter;
                s1 = s\<lparr>effects := effects s @ [TextRequest (message @ [0x0A] @ instructions)]\<rparr>;
                s2 = run_events (eventsDuringText h) s1;
                couldNot = lit ''Error: Could not generate song structure from model.''
            in (case songDataOf h of
                  Inl e \<Rightarrow> ([s1], Threw e s2)
                | Inr None \<Rightarrow> ([s1], Threw couldNot s2)
                | Inr (Some songData) \<Rightarrow>
                    (case song_slides songData of
                       None \<Rightarrow> ([s1], Threw couldNot s2)
                     | Some songStructure \<Rightarrow>
                         if length songStructure = 0 then ([s1], Threw couldNot s2)
                         else
                           (let musicStyle =
                                  (case music_style songData of
                                     None \<Rightarrow> lit ''a catchy song''
                                   | Some m \<Rightarrow> if m = [] then lit ''a catchy song'' else m);
                                beatId = selectBeatForStyle musicStyle;
                                s3 = startBackgroundMusic h beatId s2;
                                (awaits, r) =
                                  imageStep h message voiceChoice finalCharacter songStructure
                                    beatId s3
                            in (s1 # awaits, r))))))"

text \<open>Lines 502-507 (\<open>catch\<close>) and 508-513 (\<open>finally\<close>).\<close>

definition generate_catch :: "jsstring \<Rightarrow> app \<Rightarrow> app" where
  "generate_catch e s =
     (let s1 = showErrorPopup (lit ''Something went wrong: '' @ e) s
      in if length (feed s1) = 0
         then s1\<lparr>slideshowHidden := True, initialMessageHidden := False\<rparr>
         else s1)"

definition generate_finally :: "app \<Rightarrow> app" where
  "generate_finally s =
     s\<lparr>isGenerating := False, generateBtnDisabled := False,
       generateBtnText := lit ''Generate Shorts'', effects := effects s @ [FocusInput]\<rparr>"

text \<open>Lines 397-405: what \<open>generate\<close> does between its guards and the \<open>try\<close>.\<close>

definition generate_begin :: "app \<Rightarrow> app" where
  "generate_begin s =
     (let s1 = s\<lparr>isGenerating := True, generateBtnDisabled := True,
                 generateBtnText := lit ''Generating...''\<rparr>;
          s2 = stopSlideshow s1
      in s2\<lparr>errorHtml := [], errorHidden := True, initialMessageHidden := True,
            slideshowHidden := False\<rparr>)"

definition generate_run :: "host \<Rightarrow> app \<Rightarrow> app list \<times> app" where
  "generate_run h s =
     (let message = trim (userInput s);
          voiceChoice = voiceSelector s
      in if message = [] \<or> isGenerating s then ([], s)
         else if \<not> aiReady s
         then ([],
               showErrorPopup
                 (lit ''The Gemini client is not initialized. Please add your Gemini API key using the key icon in the header.'')
                 s)
         else
           (let (awaits, r) = generate_try h message voiceChoice (generate_begin s)
            in (awaits,
                generate_finally
                  (case r of Returned s4 \<Rightarrow> s4 | Threw e s4 \<Rightarrow> generate_catch e s4))))"

text \<open>The state when the call of \<open>generate\<close> has finished, and the states it suspends in.\<close>

definition generate :: "host \<Rightarrow> app \<Rightarrow> app" where
  "generate h s = snd (generate_run h s)"

definition generate_suspended :: "host \<Rightarrow> app \<Rightarrow> app list" where
  "generate_suspended h s = fst (generate_run h s)"

section \<open>Playback\<close>

text \<open>
  \<open>startSlideshow\<close> (lines 665-730). The closure \<open>speakAndAdvance\<close> captures the short, the
  slider of the active feed item and the variable \<open>currentSlideIndex\<close>: they form the
  record \<open>playback\<close>. \<open>voices\<close> are the names \<open>speechSynthesis.getVoices()\<close> lists. A call of
  \<open>speakAndAdvance\<close> ends when playback stops or when an utterance has been handed to the
  speech engine; the engine then calls \<open>onend\<close> (\<open>utteranceEnded\<close>) or \<open>onerror\<close>
  (\<open>utteranceFailed\<close>, with the error code).
\<close>

record playback =
  pb_tiktok :: tiktok
  pb_sliderChildren :: nat
  currentSlideIndex :: nat

definition selectedVoice :: "jsstring list \<Rightarrow> tiktok \<Rightarrow> jsstring option" where
  "selectedVoice voices t =
     (case voiceName t of
        None \<Rightarrow> None
      | Some v \<Rightarrow> if v \<noteq> [] \<and> v \<in> set voices then Some v else None)"

function speakAndAdvance :: "jsstring list \<Rightarrow> playback \<Rightarrow> app \<Rightarrow> playback \<times> app" where
  "speakAndAdvance voices pb s =
     (if currentSlideIndex pb \<ge> length (slides (pb_tiktok pb)) \<or> \<not> isPlaying s
      then (pb, stopSlideshow s)
      else
        (let s1 = (if currentSlideIndex pb < pb_sliderChildren pb
                   then s\<lparr>effects := effects s @ [ScrollSlideIntoView (currentSlideIndex pb)]\<rparr>
                   else s);
             lyricsText = lyrics (slides (pb_tiktok pb) ! currentSlideIndex pb)
         in if trim lyricsText = []
            then speakAndAdvance voices (pb\<lparr>currentSlideIndex := currentSlideIndex pb + 1\<rparr>) s1
            else (pb, s1\<lparr>speaking := True,
                         effects := effects s1 @
                           [SpeechSpeak lyricsText (selectedVoice voices (pb_tiktok pb))]\<rparr>)))"
  by pat_completeness auto
termination
  by (relation "measure (\<lambda>(voices, pb, s). length (slides (pb_tiktok pb)) - currentSlideIndex pb)")
    auto

declare speakAndAdvance.simps [simp del]

definition utteranceEnded :: "jsstring list \<Rightarrow> playback \<Rightarrow> app \<Rightarrow> playback \<times> app" where
  "utteranceEnded voices pb s =
     speakAndAdvance voices (pb\<lparr>currentSlideIndex := currentSlideIndex pb + 1\<rparr>)
       (s\<lparr>speaking := False\<rparr>)"

definition utteranceFailed :: "jsstring \<Rightarrow> playback \<Rightarrow> app \<Rightarrow> playback \<times> app" where
  "utteranceFailed err pb s =
     (if err = lit ''canceled'' \<or> err = lit ''interrupted'' then (pb, s)
      else (pb, stopSlideshow (showErrorPopup (lit ''Speech synthesis failed: '' @ err) s)))"

definition startSlideshow :: "jsstring list \<Rightarrow> app \<Rightarrow> playback option \<times> app" where
  "startSlideshow voices s =
     (case activeTikTokContainer s of
        None \<Rightarrow> (None, s)
      | Some container \<Rightarrow>
          (case find (\<lambda>item. node item = container) (feed s) of
             None \<Rightarrow> (None, s)
           | Some item \<Rightarrow>
               (case find (\<lambda>t. tiktok_id t = item_tiktok_id item) (savedTikToks s) of
                  None \<Rightarrow> (None, s)
                | Some t \<Rightarrow>
                    if length (slide_elements item) = 0 then (None, s)
                    else
                      (let s1 = stopSlideshow s;
                           s2 = s1\<lparr>isPlaying := True, slideshowPaused := False\<rparr>;
                           (pb, s3) =
                             speakAndAdvance voices
                               \<lparr>pb_tiktok = t, pb_sliderChildren = length (slide_elements item),
                                currentSlideIndex = 0\<rparr> s2
                       in (Some pb, s3)))))"

section \<open>Notions the properties of the generation are stated with\<close>

text \<open>
  The prompts of the image requests in a log, in order. The narrator \<open>generate\<close> works
  with (\<open>finalCharacter\<close>, lines 408-412). \<open>reaches_song_request\<close>: a call of \<open>generate\<close> in
  this state gets as far as the text request. \<open>song_error\<close>: the error with which the
  song of the host is refused, for a text request that rejects, a response without text,
  a text \<open>JSON.parse\<close> throws on, a parsed value without slides, and an empty list of
  slides; \<open>None\<close> for a song with at least one slide.
\<close>

fun imageRequestsOf :: "effect list \<Rightarrow> jsstring list" where
  "imageRequestsOf [] = []"
| "imageRequestsOf (ImageRequest p # es) = p # imageRequestsOf es"
| "imageRequestsOf (_ # es) = imageRequestsOf es"

definition narratorOf :: "app \<Rightarrow> jsstring" where
  "narratorOf s =
     (if characterSelector s = lit ''custom'' then trim (customCharacterInput s)
      else characterSelector s)"

definition reaches_song_request :: "app \<Rightarrow> bool" where
  "reaches_song_request s =
     (trim (userInput s) \<noteq> [] \<and> \<not> isGenerating s \<and> aiReady s \<and> narratorOf s \<noteq> [])"

definition song_error :: "host \<Rightarrow> jsstring option" where
  "song_error h =
     (case textResult h of
        TextRejected e \<Rightarrow> Some e
      | TextResolved None \<Rightarrow> Some undefinedIsNotJson
      | TextResolved (Some txt) \<Rightarrow>
          (case jsonParse h txt of
             ParseThrows e \<Rightarrow> Some e
           | Parsed None \<Rightarrow> Some (lit ''Error: Could not generate song structure from model.'')
           | Parsed (Some d) \<Rightarrow>
               (case song_slides d of
                  None \<Rightarrow> Some (lit ''Error: Could not generate song structure from model.'')
                | Some sl \<Rightarrow>
                    if sl = []
                    then Some (lit ''Error: Could not generate song structure from model.'')
                    else None)))"

text \<open>
  The states a call of \<open>generate\<close> suspends in: \<open>song_requested\<close> once the text request for
  the message \<open>m\<close> is sent, \<open>awaiting_images\<close> once the calls of \<open>generateImageFromPrompt\<close>
  for the slides are made. \<open>imageRequestsFor\<close> are the requests these calls send, and
  \<open>image_results\<close> is how their promises settle, in the order of the slides. \<open>song_arrived\<close>
  and \<open>images_arrived\<close> are the states in which the call resumes, after the handlers of the
  events of the host. \<open>beatFor\<close> is the track of a song (lines 451-452), and
  \<open>music_started\<close> the state in which the calls of \<open>generateImageFromPrompt\<close> are made.
\<close>

definition imageRequestsFor :: "host \<Rightarrow> app \<Rightarrow> song_slide list \<Rightarrow> effect list" where
  "imageRequestsFor h s sl =
     (if aiReady s
      then map (\<lambda>x. ImageRequest
                  (finalPromptFor (inheritedProperty h) (selectedStyle s) (image_prompt x))) sl
      else [])"

definition awaiting_images :: "host \<Rightarrow> song_slide list \<Rightarrow> app \<Rightarrow> app" where
  "awaiting_images h sl s = s\<lparr>effects := effects s @ imageRequestsFor h s sl\<rparr>"

definition images_arrived :: "host \<Rightarrow> song_slide list \<Rightarrow> app \<Rightarrow> app" where
  "images_arrived h sl s = run_events (eventsDuringImages h) (awaiting_images h sl s)"

definition image_results :: "host \<Rightarrow> app \<Rightarrow> song_slide list \<Rightarrow> (jsstring + jsstring) list" where
  "image_results h s sl =
     map snd (map (\<lambda>(i, p). generateImageFromPrompt h s i p)
       (enumerate 0 (map image_prompt sl)))"

definition song_requested :: "host \<Rightarrow> jsstring \<Rightarrow> app \<Rightarrow> app" where
  "song_requested h message s =
     s\<lparr>effects := effects s @
        [TextRequest (message @ [0x0A] @ getInstructionsForSong (emojiProperty h) (narratorOf s))]\<rparr>"

definition song_arrived :: "host \<Rightarrow> app \<Rightarrow> app" where
  "song_arrived h s =
     run_events (eventsDuringText h) (song_requested h (trim (userInput s)) (generate_begin s))"

definition beatFor :: "song_structure \<Rightarrow> jsstring" where
  "beatFor d =
     selectBeatForStyle
       (case music_style d of
          None \<Rightarrow> lit ''a catchy song''
        | Some m \<Rightarrow> if m = [] then lit ''a catchy song'' else m)"

definition music_started :: "host \<Rightarrow> song_structure \<Rightarrow> app \<Rightarrow> app" where
  "music_started h d s = startBackgroundMusic h (beatFor d) (song_arrived h s)"

section \<open>Notions the properties of playback and of the history are stated with\<close>

text \<open>
  \<open>spokenOf\<close>: the utterances handed to the speech engine in a log, in order. A slide is
  blank when its lyrics are empty after trimming. \<open>playCompletions n\<close>: the engine
  completes up to \<open>n\<close> utterances one after the other, as long as playback goes on.
\<close>

fun spokenOf :: "effect list \<Rightarrow> (jsstring \<times> jsstring option) list" where
  "spokenOf [] = []"
| "spokenOf (SpeechSpeak l v # es) = (l, v) # spokenOf es"
| "spokenOf (_ # es) = spokenOf es"

definition blankLyrics :: "slide_data \<Rightarrow> bool" where
  "blankLyrics sd = (trim (lyrics sd) = [])"

fun playCompletions :: "nat \<Rightarrow> jsstring list \<Rightarrow> playback \<Rightarrow> app \<Rightarrow> playback \<times> app" where
  "playCompletions 0 voices pb s = (pb, s)"
| "playCompletions (Suc n) voices pb s =
     (if isPlaying s
      then (let (pb', s') = utteranceEnded voices pb s in playCompletions n voices pb' s')
      else (pb, s))"

text \<open>
  The operations on the history: loading it from the store and saving a new short, each
  with what the backend makes of the request. \<open>fresh_saves b\<close>: every short saved has at
  least one slide and an id above \<open>b\<close> and above the ids saved before it, as the values of
  \<open>Date.now()\<close> of successive generations are. \<open>store_ok b\<close>: the ids of the stored records
  are distinct and at most \<open>b\<close>, and every record has at least one slide. \<open>thumbnailOf\<close> is
  the thumbnail \<open>renderHistoryGallery\<close> builds for a short, and \<open>history_inv\<close> the invariant
  of the history.
\<close>

datatype history_op = Load "jsstring option" | Save "jsstring option" tiktok

fun apply_op :: "history_op \<Rightarrow> app \<Rightarrow> app" where
  "apply_op (Load getAllError) s = completion_state (loadHistoryFromDB getAllError s)"
| "apply_op (Save putErr t) s = snd (saveAndRenderNewTikTok putErr t s)"

definition run_ops :: "history_op list \<Rightarrow> app \<Rightarrow> app" where
  "run_ops ops s = foldl (\<lambda>s' op. apply_op op s') s ops"

fun fresh_saves :: "nat \<Rightarrow> history_op list \<Rightarrow> bool" where
  "fresh_saves b [] = True"
| "fresh_saves b (Load getAllError # ops) = fresh_saves b ops"
| "fresh_saves b (Save putErr t # ops) =
     (b < tiktok_id t \<and> slides t \<noteq> [] \<and> fresh_saves (tiktok_id t) ops)"

fun gallery_thumbnails :: "gallery_content \<Rightarrow> thumbnail list" where
  "gallery_thumbnails Placeholder = []"
| "gallery_thumbnails (Thumbnails ts) = ts"

definition thumbnailOf :: "tiktok \<Rightarrow> thumbnail" where
  "thumbnailOf t =
     \<lparr>thumb_tiktok_id = tiktok_id t,
      thumb_img = (case slides t of [] \<Rightarrow> [] | slide0 # _ \<Rightarrow> imageSrc slide0),
      thumb_prompt = prompt t\<rparr>"

definition store_ok :: "nat \<Rightarrow> savable_tiktok list \<Rightarrow> bool" where
  "store_ok b store =
     (distinct (map tiktok_id store) \<and> list_all (\<lambda>r. slides r \<noteq> [] \<and> tiktok_id r \<le> b) store)"

definition history_inv :: "nat \<Rightarrow> app \<Rightarrow> bool" where
  "history_inv b s =
     (case db s of
        None \<Rightarrow> False
      | Some store \<Rightarrow>
          store_ok b store \<and>
          set (map tiktok_id (savedTikToks s)) = set (map tiktok_id store) \<and>
          sorted_wrt (>) (map tiktok_id (savedTikToks s)) \<and>
          list_all (\<lambda>t. slides t \<noteq> []) (savedTikToks s) \<and>
          gallery_thumbnails (gallery s) = map thumbnailOf (savedTikToks s))"

section \<open>A page and a host for the examples\<close>

text \<open>
  The module-level variables as index.tsx initialises them (lines 86-94), on a page
  nobody has touched: empty inputs, no feed item, an empty gallery, the error dialog
  closed. \<open>ready_app\<close> is the page once the store is open (and empty), a client exists
  and the user has typed a question and chosen the narrator \<open>cat\<close>.
\<close>

definition initial_app :: app where
  "initial_app =
     \<lparr>isPlaying = False, isGenerating = False, selectedStyle = lit ''storybook'',
      savedTikToks = [], activeTikTokContainer = None, currentAudio = None,
      backgroundAudio = None, aiReady = False, db = None, userInput = [],
      voiceSelector = [], characterSelector = [], customCharacterInput = [],
      errorHtml = [], errorHidden = True, initialMessageHidden = False,
      slideshowHidden = True, feed = [], gallery = Placeholder,
      generateBtnDisabled = False, generateBtnText = lit ''Generate Shorts'',
      errorModalMessage = [], errorModalHidden = True, modalOverlayHidden = True,
      apiKeyModalHidden = True, slideshowPaused = False, speaking = False, nextNode = 0, effects = []\<rparr>"

definition ready_app :: app where
  "ready_app =
     initial_app\<lparr>aiReady := True, db := Some [], userInput := lit ''Why is the sky blue?'',
       characterSelector := lit ''cat''\<rparr>"

definition example_short :: tiktok where
  "example_short =
     \<lparr>tiktok_id = 1700000000000,
      slides = [\<lparr>lyrics = lit ''Blue light scatters'', imageSrc = lit ''data:image/png;base64,AAAA''\<rparr>],
      character = lit ''cat'', prompt = lit ''Why is the sky blue?'',
      instrumentalId = Some (lit ''beat-upbeat''), voiceName = Some [],
      element = Some 7\<rparr>"

text \<open>
  A host whose model answers with a song of two slides and an image for every prompt,
  and whose store accepts the save (of the inherited properties it has the one of
  \<open>constructor\<close>, an excerpt of the table); the same host with a model that answers with no
  slide, and with a second image request that rejects after the user has chosen the
  style \<open>anime\<close> while the song was awaited. \<open>key_removed_host\<close>: while the song is awaited
  the user saves the key dialog with no key, on a page that has none in its
  environment.
\<close>

definition example_song :: song_structure where
  "example_song =
     \<lparr>song_slides =
        Some [\<lparr>song_lyrics = lit ''Blue light scatters'', image_prompt = lit ''a blue sky''\<rparr>,
              \<lparr>song_lyrics = lit ''   '', image_prompt = lit ''a cat looking up''\<rparr>],
      music_style = Some (lit ''Gentle acoustic ballad'')\<rparr>"

definition prototype_excerpt :: "jsstring \<Rightarrow> jsstring option" where
  "prototype_excerpt k =
     (if k = lit ''constructor'' then Some (lit ''function Object() { [native code] }'')
      else None)"

definition example_host :: host where
  "example_host =
     \<lparr>emojiProperty = emoji_excerpt,
      inheritedProperty = prototype_excerpt,
      textResult = TextResolved (Some (lit ''{}'')),
      jsonParse = (\<lambda>txt. Parsed (Some example_song)),
      imageResult = (\<lambda>i p. ImageParts [None, Some (lit ''image/png'', lit ''AAAA'')]),
      audioElement = (\<lambda>a. True),
      dateNow = 1700000000000,
      putError = None,
      eventsDuringText = [],
      eventsDuringImages = []\<rparr>"

definition no_slides_host :: host where
  "no_slides_host =
     example_host\<lparr>jsonParse := (\<lambda>txt. Parsed (Some (example_song\<lparr>song_slides := Some []\<rparr>)))\<rparr>"

definition image_failure_host :: host where
  "image_failure_host =
     example_host\<lparr>imageResult :=
       (\<lambda>i p. if i = 1 then ImageRejected (lit ''Error: 429'')
              else ImageParts [Some (lit ''image/png'', lit ''AAAA'')]),
       eventsDuringText := [StyleClicked (Some (lit ''anime''))]\<rparr>"

definition key_removed_host :: host where
  "key_removed_host = example_host\<lparr>eventsDuringText := [ApiKeySaved NoApiKey]\<rparr>"

text \<open>A store with two records, and a short with blank slides between spoken ones.\<close>

definition stored_example :: "savable_tiktok list" where
  "stored_example =
     [savableTikTok (example_short\<lparr>tiktok_id := 5\<rparr>), savableTikTok (example_short\<lparr>tiktok_id := 9\<rparr>)]"

definition narrated_short :: tiktok where
  "narrated_short =
     example_short\<lparr>slides :=
       [\<lparr>lyrics = lit ''Blue light scatters'', imageSrc = []\<rparr>,
        \<lparr>lyrics = lit ''  '', imageSrc = []\<rparr>,
        \<lparr>lyrics = [], imageSrc = []\<rparr>,
        \<lparr>lyrics = lit ''all around'', imageSrc = []\<rparr>,
        \<lparr>lyrics = [0x09, 0x0A], imageSrc = []\<rparr>]\<rparr>"

section \<open>Properties of the track selection\<close>

lemma prefix_lower_ci:
  "map lowerCP k = k \<Longrightarrow> prefix k (map lowerCP s) = ci_prefix k s"
proof (induction k s rule: ci_prefix.induct)
  case (1 s)
  then show ?case by simp
next
  case (2 a k)
  then show ?case by simp
next
  case (3 a k c s)
  then show ?case by auto
qed

lemma includes_lower_ci:
  "map lowerCP k = k \<Longrightarrow> includes_str (toLowerCase s) k = ci_occurs k s"
proof (induction s)
  case Nil
  then show ?case by (simp add: toLowerCase_def)
next
  case (Cons c s)
  have "prefix k (map lowerCP (c # s)) = ci_prefix k (c # s)"
    using Cons.prems by (rule prefix_lower_ci)
  with Cons show ?case by (simp add: toLowerCase_def)
qed

lemma keywords_lower:
  "map lowerCP (lit ''upbeat'') = lit ''upbeat''"
  "map lowerCP (lit ''pop'') = lit ''pop''"
  "map lowerCP (lit ''happy'') = lit ''happy''"
  "map lowerCP (lit ''rock'') = lit ''rock''"
  "map lowerCP (lit ''ballad'') = lit ''ballad''"
  "map lowerCP (lit ''gentle'') = lit ''gentle''"
  "map lowerCP (lit ''slow'') = lit ''slow''"
  "map lowerCP (lit ''acoustic'') = lit ''acoustic''"
  "map lowerCP (lit ''epic'') = lit ''epic''"
  "map lowerCP (lit ''cinematic'') = lit ''cinematic''"
  "map lowerCP (lit ''score'') = lit ''score''"
  by (simp_all add: lit_def lowerCP_def)

text \<open>
  C3. For every music style, the track chosen by \<open>selectBeatForStyle\<close> is the one the
  specification describes: the groups upbeat/pop/happy/rock (track A),
  ballad/gentle/slow/acoustic (track B) and epic/cinematic/score (track C) are tried in
  this order with a case-insensitive keyword match, the first group that matches wins,
  and a style that matches none gets track A. The function is total and its result is a
  function of the style alone.
\<close>

theorem selectBeatForStyle_priority:
  "selectBeatForStyle style = track_id (select_track_spec style)"
  by (simp add: selectBeatForStyle_def select_track_spec_def group_matches_def
      upbeat_group_def ballad_group_def epic_group_def Let_def
      includes_lower_ci keywords_lower)

theorem selectBeatForStyle_priority_witness:
  "selectBeatForStyle (lit ''Epic POP score'') = lit ''beat-upbeat'' \<and>
   select_track_spec (lit ''Epic POP score'') = TrackA"
  using selectBeatForStyle_priority [of "lit ''Epic POP score''"]
  by (simp add: select_track_spec_def group_matches_def upbeat_group_def lit_def lowerCP_def)

section \<open>Properties of the instruction\<close>

lemma ci_equal_lower: "ci_equal m k = (map lowerCP m = map lowerCP k)"
  by (induction m k rule: ci_equal.induct) auto

lemma ci_equal_key:
  "map lowerCP k = k \<Longrightarrow> (toLowerCase m = k) = ci_equal m k"
  by (simp add: ci_equal_lower toLowerCase_def)

lemma names_lower:
  "map lowerCP (lit ''spider-man'') = lit ''spider-man''"
  "map lowerCP (lit ''barbie'') = lit ''barbie''"
  "map lowerCP (lit ''simba'') = lit ''simba''"
  by (simp_all add: lit_def lowerCP_def)

lemma getInstructionsForSong_name:
  "getInstructionsForSong E narrator =
     instructionsForName (trim (stripLeadingEmoji E narrator))"
  by (simp add: getInstructionsForSong_def instructionsForName_def genericInstructions_def
      Let_def ci_equal_key names_lower)

lemma trim_dropWhile: "trim (dropWhile isWhiteSpace cs) = trim cs"
  by (simp add: trim_def)

lemma trim_Nil: "trim [] = []"
  by (simp add: trim_def)

lemma typed_name_spec_logicName:
  "typed_name_spec E narrator = Some m \<Longrightarrow> trim (stripLeadingEmoji E narrator) = m"
  by (cases narrator)
    (auto simp: trim_dropWhile trim_Nil split: if_splits list.splits)

lemma curated_names_differ:
  "ci_equal m (lit ''spider-man'') \<Longrightarrow> \<not> ci_equal m (lit ''barbie'')"
  "ci_equal m (lit ''spider-man'') \<Longrightarrow> \<not> ci_equal m (lit ''simba'')"
  "ci_equal m (lit ''barbie'') \<Longrightarrow> \<not> ci_equal m (lit ''simba'')"
  by (auto simp: ci_equal_lower names_lower) (simp_all add: lit_def)

lemma upperFirst_examples:
  "upperFirst 0x63 = [0x43]"
  "upperFirst 0x77 = [0x57]"
  "upperFirst 0x30 = [0x30]"
  "upperFirst 0xFE0F = [0xFE0F]"
  "upperFirst 0x43C = [0x41C]"
  "upperFirst 0xDF = [0x53, 0x53]"
  by (simp_all add: upperFirst_def upperCaseSpecial_def upperCaseRuns_def)

text \<open>
  C4, as the code has it. For an input that starts with an emoji of one code point, or
  with a code point outside the Emoji property, the name is the input without the
  emoji, trimmed. It is matched against
  spider-man, barbie and simba up to the case of its letters, and the curated guidance
  of the narrator it matches is the instruction. A name that matches none gets the
  generic instruction, which refers to the name with its first character in upper case
  and the rest as typed.
\<close>

theorem getInstructionsForSong_strips_and_matches:
  assumes "typed_name_spec E narrator = Some m"
  shows
    "(ci_equal m (lit ''spider-man'') \<longrightarrow>
        getInstructionsForSong E narrator = baseInstructions @ lit '' '' @ spiderManSpecifics) \<and>
     (ci_equal m (lit ''barbie'') \<longrightarrow>
        getInstructionsForSong E narrator = baseInstructions @ lit '' '' @ barbieSpecifics) \<and>
     (ci_equal m (lit ''simba'') \<longrightarrow>
        getInstructionsForSong E narrator = baseInstructions @ lit '' '' @ simbaSpecifics) \<and>
     (\<not> ci_equal m (lit ''spider-man'') \<and> \<not> ci_equal m (lit ''barbie'') \<and>
      \<not> ci_equal m (lit ''simba'') \<longrightarrow>
        getInstructionsForSong E narrator =
          baseInstructions @ lit '' '' @ genericSpecifics (capitalizeFirst m))"
proof -
  have "getInstructionsForSong E narrator = instructionsForName m"
    using assms by (simp add: getInstructionsForSong_name typed_name_spec_logicName)
  then show ?thesis
    using curated_names_differ [of m]
    by (auto simp: instructionsForName_def genericInstructions_def)
qed

theorem getInstructionsForSong_strips_and_matches_witness:
  "getInstructionsForSong emoji_excerpt (0x1F577 # 0x20 # lit ''SPIDER-Man '') =
     baseInstructions @ lit '' '' @ spiderManSpecifics \<and>
   getInstructionsForSong emoji_excerpt (lit ''wall-E'') =
     baseInstructions @ lit '' '' @ genericSpecifics (lit ''Wall-E'')"
proof -
  have "typed_name_spec emoji_excerpt (0x1F577 # 0x20 # lit ''SPIDER-Man '') =
      Some (lit ''SPIDER-Man'')"
    by (simp add: emoji_excerpt_def emojiComponent_def emojiContinues_def isWhiteSpace_def
        trim_def lit_def)
  moreover have "ci_equal (lit ''SPIDER-Man'') (lit ''spider-man'')"
    by (simp add: lit_def lowerCP_def)
  moreover have "typed_name_spec emoji_excerpt (lit ''wall-E'') = Some (lit ''wall-E'')"
    by (simp add: emoji_excerpt_def isWhiteSpace_def trim_def lit_def)
  moreover have "\<not> ci_equal (lit ''wall-E'') (lit ''spider-man'') \<and>
      \<not> ci_equal (lit ''wall-E'') (lit ''barbie'') \<and> \<not> ci_equal (lit ''wall-E'') (lit ''simba'')"
    by (simp add: lit_def lowerCP_def)
  moreover have "capitalizeFirst (lit ''wall-E'') = lit ''Wall-E''"
    by (simp add: lit_def upperFirst_examples)
  ultimately show ?thesis
    using getInstructionsForSong_strips_and_matches
        [of emoji_excerpt "0x1F577 # 0x20 # lit ''SPIDER-Man ''" "lit ''SPIDER-Man''"]
      getInstructionsForSong_strips_and_matches
        [of emoji_excerpt "lit ''wall-E''" "lit ''wall-E''"]
    by simp
qed

text \<open>
  C4, as the claim words it, fails: for the narrator \<open>cat\<close> the generic instruction does
  not refer to the name as typed, it refers to \<open>Cat\<close>. And the emoji of the spider in its
  usual form, the two code points \<open>U+1F577 U+FE0F\<close>, is not stripped before the match:
  the variation selector stays in front of the name, so \<open>Spider-Man\<close> behind it gets the
  generic instruction. And of the name \<open>50 Cent\<close>, which has no emoji, the first digit is
  taken away: digits have the Emoji property.
\<close>

theorem getInstructionsForSong_original_case_counterexample:
  "getInstructionsForSong emoji_excerpt (lit ''cat'') \<noteq>
     baseInstructions @ lit '' '' @ genericSpecifics (lit ''cat'') \<and>
   getInstructionsForSong emoji_excerpt (lit ''cat'') =
     baseInstructions @ lit '' '' @ genericSpecifics (lit ''Cat'') \<and>
   getInstructionsForSong emoji_excerpt (0x1F577 # 0xFE0F # 0x20 # lit ''Spider-Man'') \<noteq>
     baseInstructions @ lit '' '' @ spiderManSpecifics \<and>
   getInstructionsForSong emoji_excerpt (0x1F577 # 0xFE0F # 0x20 # lit ''Spider-Man'') =
     baseInstructions @ lit '' '' @ genericSpecifics (0xFE0F # 0x20 # lit ''Spider-Man'') \<and>
   getInstructionsForSong emoji_excerpt (lit ''50 Cent'') =
     baseInstructions @ lit '' '' @ genericSpecifics (lit ''0 Cent'')"
  by (simp add: getInstructionsForSong_def genericSpecifics_def spiderManSpecifics_def
      Let_def emoji_excerpt_def isWhiteSpace_def trim_def lit_def lowerCP_def toLowerCase_def
      upperFirst_examples)

section \<open>Properties of the persistence layer\<close>

lemma store_put_find:
  "find (\<lambda>x. tiktok_id x = tiktok_id r) (store_put r store) = Some r"
proof (cases "tiktok_id r \<in> set (map tiktok_id store)")
  case True
  then have "find (\<lambda>x. tiktok_id x = tiktok_id r)
      (map (\<lambda>x. if tiktok_id x = tiktok_id r then r else x) store) = Some r"
    by (induction store) auto
  with True show ?thesis by (simp add: store_put_def)
next
  case False
  then have "find (\<lambda>x. tiktok_id x = tiktok_id r) (store @ [r]) = Some r"
    by (induction store) auto
  with False show ?thesis by (simp add: store_put_def)
qed

lemma store_put_others:
  "filter (\<lambda>x. tiktok_id x \<noteq> tiktok_id r) (store_put r store) =
   filter (\<lambda>x. tiktok_id x \<noteq> tiktok_id r) store"
proof -
  have "filter (\<lambda>x. tiktok_id x \<noteq> tiktok_id r)
      (map (\<lambda>x. if tiktok_id x = tiktok_id r then r else x) store) =
    filter (\<lambda>x. tiktok_id x \<noteq> tiktok_id r) store"
    by (induction store) auto
  then show ?thesis by (simp add: store_put_def)
qed

text \<open>
  C8. The record \<open>saveTikTokToDB\<close> hands to \<open>put\<close> is the short without its \<open>element\<close>:
  every other field has the value it has in the short. When the promise resolves, the
  store holds that record under the id of the short, the records with other ids are the
  ones it held, and nothing else of the state has changed. The promise rejects when the
  database is not initialised and when the backend reports an error for the request.
\<close>

theorem saveTikTokToDB_stores_without_element:
  "tiktok_id (savableTikTok t) = tiktok_id t \<and> slides (savableTikTok t) = slides t \<and>
   character (savableTikTok t) = character t \<and> prompt (savableTikTok t) = prompt t \<and>
   instrumentalId (savableTikTok t) = instrumentalId t \<and>
   voiceName (savableTikTok t) = voiceName t \<and>
   asTikTok (savableTikTok t) = t\<lparr>element := None\<rparr> \<and>
   (db s = None \<longrightarrow>
      saveTikTokToDB putErr t s = Inl (lit ''Error: Database is not initialized.'')) \<and>
   (db s = Some store \<and> putErr = Some e \<longrightarrow> saveTikTokToDB putErr t s = Inl e) \<and>
   (db s = Some store \<and> putErr = None \<longrightarrow>
      saveTikTokToDB putErr t s = Inr (s\<lparr>db := Some (store_put (savableTikTok t) store)\<rparr>) \<and>
      find (\<lambda>x. tiktok_id x = tiktok_id t) (store_put (savableTikTok t) store) =
        Some (savableTikTok t) \<and>
      filter (\<lambda>x. tiktok_id x \<noteq> tiktok_id t) (store_put (savableTikTok t) store) =
        filter (\<lambda>x. tiktok_id x \<noteq> tiktok_id t) store)"
proof -
  have fields: "tiktok_id (savableTikTok t) = tiktok_id t"
    by (simp add: savableTikTok_def)
  have restored: "asTikTok (savableTikTok t) = t\<lparr>element := None\<rparr>"
    by (simp add: savableTikTok_def asTikTok_def)
  have found: "find (\<lambda>x. tiktok_id x = tiktok_id t) (store_put (savableTikTok t) store) =
      Some (savableTikTok t)"
    using store_put_find [of "savableTikTok t" store] by (simp add: fields)
  have others: "filter (\<lambda>x. tiktok_id x \<noteq> tiktok_id t) (store_put (savableTikTok t) store) =
      filter (\<lambda>x. tiktok_id x \<noteq> tiktok_id t) store"
    using store_put_others [of "savableTikTok t" store] by (simp add: fields)
  show ?thesis
    using restored found others by (simp add: savableTikTok_def saveTikTokToDB_def)
qed

theorem saveTikTokToDB_stores_without_element_witness:
  "saveTikTokToDB None example_short ready_app =
     Inr (ready_app\<lparr>db := Some [savableTikTok example_short]\<rparr>) \<and>
   asTikTok (savableTikTok example_short) = example_short\<lparr>element := None\<rparr> \<and>
   saveTikTokToDB (Some (lit ''QuotaExceededError'')) example_short ready_app =
     Inl (lit ''QuotaExceededError'') \<and>
   saveTikTokToDB None example_short initial_app =
     Inl (lit ''Error: Database is not initialized.'')"
  using saveTikTokToDB_stores_without_element
    [of example_short ready_app None "[]" "lit ''QuotaExceededError''"]
    saveTikTokToDB_stores_without_element
    [of example_short ready_app "Some (lit ''QuotaExceededError'')" "[]" "lit ''QuotaExceededError''"]
    saveTikTokToDB_stores_without_element
    [of example_short initial_app None "[]" "lit ''QuotaExceededError''"]
  by (simp add: ready_app_def initial_app_def store_put_def)

section \<open>Properties of saving a new short\<close>

text \<open>
  C2. When the save of a short fails (the database is not initialised, or the backend
  reports an error for the \<open>put\<close> request), \<open>savedTikToks\<close> is afterwards the list it was
  before the call, although the short stood at its head while the save was awaited; the
  error dialog is open with the message about the failed save; and the store, the feed
  and the gallery are unchanged. The whole state is the one before the call with the
  dialog opened.
\<close>

theorem saveAndRenderNewTikTok_rollback:
  "db s = None \<or> putErr \<noteq> None \<Longrightarrow>
   savedTikToks (snd (saveAndRenderNewTikTok putErr t s)) = savedTikToks s \<and>
   map savedTikToks (fst (saveAndRenderNewTikTok putErr t s)) = [t # savedTikToks s] \<and>
   errorModalMessage (snd (saveAndRenderNewTikTok putErr t s)) =
     lit ''Failed to save your new Short. Storage might be full or corrupted.'' \<and>
   \<not> errorModalHidden (snd (saveAndRenderNewTikTok putErr t s)) \<and>
   \<not> modalOverlayHidden (snd (saveAndRenderNewTikTok putErr t s)) \<and>
   db (snd (saveAndRenderNewTikTok putErr t s)) = db s \<and>
   feed (snd (saveAndRenderNewTikTok putErr t s)) = feed s \<and>
   gallery (snd (saveAndRenderNewTikTok putErr t s)) = gallery s \<and>
   snd (saveAndRenderNewTikTok putErr t s) =
     showErrorPopup (lit ''Failed to save your new Short. Storage might be full or corrupted.'') s"
  by (cases "db s"; cases putErr)
    (auto simp: saveAndRenderNewTikTok_def saveTikTokToDB_def saveFailed_def showErrorPopup_def
      Let_def)

theorem saveAndRenderNewTikTok_rollback_witness:
  "savedTikToks (snd (saveAndRenderNewTikTok (Some (lit ''QuotaExceededError'')) example_short
      (ready_app\<lparr>savedTikToks := [example_short\<lparr>tiktok_id := 5\<rparr>]\<rparr>))) =
     [example_short\<lparr>tiktok_id := 5\<rparr>] \<and>
   \<not> errorModalHidden (snd (saveAndRenderNewTikTok (Some (lit ''QuotaExceededError''))
      example_short (ready_app\<lparr>savedTikToks := [example_short\<lparr>tiktok_id := 5\<rparr>]\<rparr>)))"
  using saveAndRenderNewTikTok_rollback
    [of "ready_app\<lparr>savedTikToks := [example_short\<lparr>tiktok_id := 5\<rparr>]\<rparr>"
        "Some (lit ''QuotaExceededError'')" example_short]
  by (simp add: showErrorPopup_def)

section \<open>Properties of the generation\<close>

lemma stopSlideshow_keeps:
  "isGenerating (stopSlideshow s) = isGenerating s"
  "savedTikToks (stopSlideshow s) = savedTikToks s"
  "db (stopSlideshow s) = db s"
  "feed (stopSlideshow s) = feed s"
  "gallery (stopSlideshow s) = gallery s"
  "selectedStyle (stopSlideshow s) = selectedStyle s"
  "aiReady (stopSlideshow s) = aiReady s"
  "characterSelector (stopSlideshow s) = characterSelector s"
  "customCharacterInput (stopSlideshow s) = customCharacterInput s"
  by (simp_all add: stopSlideshow_def Let_def split: option.split)

lemma imageRequestsOf_append:
  "imageRequestsOf (a @ b) = imageRequestsOf a @ imageRequestsOf b"
  by (induction a rule: imageRequestsOf.induct) auto

lemma stopSlideshow_requests:
  "imageRequestsOf (effects (stopSlideshow s)) = imageRequestsOf (effects s)"
  by (simp add: stopSlideshow_def Let_def imageRequestsOf_append split: option.split)

lemma generate_begin_keeps:
  "isGenerating (generate_begin s)"
  "savedTikToks (generate_begin s) = savedTikToks s"
  "db (generate_begin s) = db s"
  "feed (generate_begin s) = feed s"
  "gallery (generate_begin s) = gallery s"
  "selectedStyle (generate_begin s) = selectedStyle s"
  "aiReady (generate_begin s) = aiReady s"
  "narratorOf (generate_begin s) = narratorOf s"
  "imageRequestsOf (effects (generate_begin s)) = imageRequestsOf (effects s)"
  by (simp_all add: generate_begin_def Let_def stopSlideshow_keeps stopSlideshow_requests
      narratorOf_def)

lemma startBackgroundMusic_keeps:
  "isGenerating (startBackgroundMusic h b s) = isGenerating s"
  "savedTikToks (startBackgroundMusic h b s) = savedTikToks s"
  "db (startBackgroundMusic h b s) = db s"
  "feed (startBackgroundMusic h b s) = feed s"
  "gallery (startBackgroundMusic h b s) = gallery s"
  "selectedStyle (startBackgroundMusic h b s) = selectedStyle s"
  "aiReady (startBackgroundMusic h b s) = aiReady s"
  "imageRequestsOf (effects (startBackgroundMusic h b s)) = imageRequestsOf (effects s)"
  by (simp_all add: startBackgroundMusic_def Let_def imageRequestsOf_append split: option.split)

lemma handle_event_keeps:
  "isGenerating (handle_event ev s) = isGenerating s"
  "savedTikToks (handle_event ev s) = savedTikToks s"
  "db (handle_event ev s) = db s"
  "feed (handle_event ev s) = feed s"
  "gallery (handle_event ev s) = gallery s"
  "effects (handle_event ev s) = effects s"
  by (cases ev;
      simp add: styleClicked_def handleSaveApiKey_def closeApiKeyModal_def initializeGenAI_def
        showErrorPopup_def split: option.split client_outcome.split)+

lemma run_events_keeps:
  "isGenerating (run_events evs s) = isGenerating s"
  "savedTikToks (run_events evs s) = savedTikToks s"
  "db (run_events evs s) = db s"
  "feed (run_events evs s) = feed s"
  "gallery (run_events evs s) = gallery s"
  "effects (run_events evs s) = effects s"
  by (induction evs arbitrary: s; simp add: handle_event_keeps)+

lemma renderHistoryGallery_keeps:
  "isGenerating (completion_state (renderHistoryGallery s)) = isGenerating s"
  "effects (completion_state (renderHistoryGallery s)) = effects s"
  "savedTikToks (completion_state (renderHistoryGallery s)) = savedTikToks s"
  "db (completion_state (renderHistoryGallery s)) = db s"
  "feed (completion_state (renderHistoryGallery s)) = feed s"
  by (simp_all add: renderHistoryGallery_def split: completion.split)

lemma saveAndRender_suspended:
  "fst (saveAndRenderNewTikTok pe t s) = [s\<lparr>savedTikToks := t # savedTikToks s\<rparr>]"
  by (simp add: saveAndRenderNewTikTok_def Let_def split: sum.split prod.split completion.split)

lemma saveAndRender_keeps:
  "isGenerating (snd (saveAndRenderNewTikTok pe t s)) = isGenerating s"
  "imageRequestsOf (effects (snd (saveAndRenderNewTikTok pe t s))) = imageRequestsOf (effects s)"
  by (auto simp: saveAndRenderNewTikTok_def Let_def saveTikTokToDB_def saveFailed_def
      showErrorPopup_def addTikTokToFeed_def renderHistoryGallery_def imageRequestsOf_append
      split: sum.split prod.split completion.split option.split)

lemma promiseAll_Inl:
  "i < length rs \<Longrightarrow> isl (rs ! i) \<Longrightarrow> isl (promiseAll rs)"
proof (induction rs arbitrary: i rule: promiseAll.induct)
  case 1
  then show ?case by simp
next
  case (2 e rs)
  then show ?case by simp
next
  case (3 v rs)
  then obtain j where "i = Suc j" by (cases i) auto
  with 3 have "isl (promiseAll rs)" by auto
  then show ?case by (auto split: sum.split)
qed

lemma promiseAll_length:
  "promiseAll rs = Inr vs \<Longrightarrow> length vs = length rs"
  by (induction rs arbitrary: vs rule: promiseAll.induct) (auto split: sum.splits)

lemma map_enumerate_snd: "map (\<lambda>x. f (snd x)) (enumerate n ps) = map f ps"
  by (induction ps arbitrary: n) auto

lemma image_calls_requests:
  "concat (map fst (map (\<lambda>(i, p). generateImageFromPrompt h s i p)
     (enumerate 0 (map image_prompt sl)))) =
   imageRequestsFor h s sl"
proof (cases "aiReady s")
  case True
  have "map fst (map (\<lambda>(i, p). generateImageFromPrompt h s i p)
          (enumerate 0 (map image_prompt sl))) =
        map (\<lambda>x. [ImageRequest (finalPromptFor (inheritedProperty h) (selectedStyle s) (snd x))])
          (enumerate 0 (map image_prompt sl))"
    using True by (simp add: generateImageFromPrompt_def Let_def split_beta)
  also have "\<dots> =
      map (\<lambda>p. [ImageRequest (finalPromptFor (inheritedProperty h) (selectedStyle s) p)])
        (map image_prompt sl)"
    by (rule map_enumerate_snd)
  finally show ?thesis
    using True by (simp add: imageRequestsFor_def comp_def)
next
  case False
  then have "map fst (map (\<lambda>(i, p). generateImageFromPrompt h s i p)
          (enumerate 0 (map image_prompt sl))) =
        map (\<lambda>x. []) (enumerate 0 (map image_prompt sl))"
    by (simp add: generateImageFromPrompt_def Let_def split_beta)
  then show ?thesis
    using False by (simp add: imageRequestsFor_def)
qed

lemma imageRequestsOf_requests:
  "imageRequestsOf (map (\<lambda>p. ImageRequest (f p)) ps) = map f ps"
  by (induction ps) auto

lemma imageRequestsFor_cases:
  "aiReady s \<Longrightarrow>
   imageRequestsOf (imageRequestsFor h s sl) =
     map (\<lambda>x. finalPromptFor (inheritedProperty h) (selectedStyle s) (image_prompt x)) sl"
  "\<not> aiReady s \<Longrightarrow> imageRequestsOf (imageRequestsFor h s sl) = []"
  by (simp_all add: imageRequestsFor_def imageRequestsOf_requests)

lemma image_results_nth:
  "i < length sl \<Longrightarrow>
   image_results h s sl ! i = snd (generateImageFromPrompt h s i (image_prompt (sl ! i)))"
  by (simp add: image_results_def nth_enumerate_eq)

lemma image_results_length: "length (image_results h s sl) = length sl"
  by (simp add: image_results_def)

lemma generateImageFromPrompt_reads:
  "selectedStyle s' = selectedStyle s \<Longrightarrow> aiReady s' = aiReady s \<Longrightarrow>
   generateImageFromPrompt h s' i p = generateImageFromPrompt h s i p"
  by (simp add: generateImageFromPrompt_def)

lemma imageStep_unfold:
  "imageStep h m v c sl b s =
     (case promiseAll (image_results h s sl) of
        Inl imageError \<Rightarrow>
          ([awaiting_images h sl s],
           Returned
             (showErrorPopup
                (lit ''Failed to generate images: '' @ imageError @ lit ''. Please try again.'')
                (images_arrived h sl s)))
      | Inr images \<Rightarrow>
          if length sl > 0
          then (awaiting_images h sl s #
                  fst (saveAndRenderNewTikTok (putError h)
                    \<lparr>tiktok_id = dateNow h,
                     slides = map (\<lambda>index. \<lparr>lyrics = song_lyrics (sl ! index),
                                              imageSrc = images ! index\<rparr>) [0..<length sl],
                     character = c, prompt = m, instrumentalId = Some b,
                     voiceName = Some v, element = None\<rparr> (images_arrived h sl s)),
                Returned (snd (saveAndRenderNewTikTok (putError h)
                    \<lparr>tiktok_id = dateNow h,
                     slides = map (\<lambda>index. \<lparr>lyrics = song_lyrics (sl ! index),
                                              imageSrc = images ! index\<rparr>) [0..<length sl],
                     character = c, prompt = m, instrumentalId = Some b,
                     voiceName = Some v, element = None\<rparr> (images_arrived h sl s))))
          else ([awaiting_images h sl s],
                Threw (lit ''Error: No content was generated. Please try again.'')
                  (images_arrived h sl s)))"
  unfolding imageStep_def Let_def image_calls_requests image_results_def awaiting_images_def
    images_arrived_def
  by (simp add: split_beta split: sum.split)

lemma awaiting_images_keeps:
  "isGenerating (awaiting_images h sl s) = isGenerating s"
  "savedTikToks (awaiting_images h sl s) = savedTikToks s"
  "db (awaiting_images h sl s) = db s"
  "feed (awaiting_images h sl s) = feed s"
  "gallery (awaiting_images h sl s) = gallery s"
  "imageRequestsOf (effects (awaiting_images h sl s)) =
     imageRequestsOf (effects s) @ imageRequestsOf (imageRequestsFor h s sl)"
  by (simp_all add: awaiting_images_def imageRequestsOf_append)

lemma images_arrived_keeps:
  "isGenerating (images_arrived h sl s) = isGenerating s"
  "savedTikToks (images_arrived h sl s) = savedTikToks s"
  "db (images_arrived h sl s) = db s"
  "feed (images_arrived h sl s) = feed s"
  "gallery (images_arrived h sl s) = gallery s"
  "imageRequestsOf (effects (images_arrived h sl s)) =
     imageRequestsOf (effects s) @ imageRequestsOf (imageRequestsFor h s sl)"
  by (simp_all add: images_arrived_def run_events_keeps awaiting_images_keeps)

lemma imageStep_suspended:
  "\<exists>rest. fst (imageStep h m v c sl b s) = awaiting_images h sl s # rest"
  by (simp add: imageStep_unfold split: sum.split)

lemma imageStep_keeps:
  "isGenerating (completion_state (snd (imageStep h m v c sl b s))) = isGenerating s"
  "imageRequestsOf (effects (completion_state (snd (imageStep h m v c sl b s)))) =
   imageRequestsOf (effects s) @ imageRequestsOf (imageRequestsFor h s sl)"
  by (simp_all add: imageStep_unfold saveAndRender_keeps images_arrived_keeps showErrorPopup_def
      split: sum.split)

lemma song_requested_keeps:
  "isGenerating (song_requested h m s) = isGenerating s"
  "savedTikToks (song_requested h m s) = savedTikToks s"
  "db (song_requested h m s) = db s"
  "feed (song_requested h m s) = feed s"
  "gallery (song_requested h m s) = gallery s"
  "selectedStyle (song_requested h m s) = selectedStyle s"
  "aiReady (song_requested h m s) = aiReady s"
  "imageRequestsOf (effects (song_requested h m s)) = imageRequestsOf (effects s)"
  by (simp_all add: song_requested_def imageRequestsOf_append)

lemma song_arrived_keeps:
  "isGenerating (song_arrived h s)"
  "savedTikToks (song_arrived h s) = savedTikToks s"
  "db (song_arrived h s) = db s"
  "feed (song_arrived h s) = feed s"
  "gallery (song_arrived h s) = gallery s"
  "imageRequestsOf (effects (song_arrived h s)) = imageRequestsOf (effects s)"
  by (simp_all add: song_arrived_def run_events_keeps song_requested_keeps generate_begin_keeps)

lemma generate_try_no_narrator:
  "narratorOf s = [] \<Longrightarrow>
   generate_try h m v s =
     ([], Returned (showErrorPopup (lit ''Please enter or select a narrator.'') s))"
  by (simp add: generate_try_def narratorOf_def Let_def)

lemma generate_try_error:
  "narratorOf s \<noteq> [] \<Longrightarrow> song_error h = Some e \<Longrightarrow>
   generate_try h m v s =
     ([song_requested h m s], Threw e (run_events (eventsDuringText h) (song_requested h m s)))"
  by (auto simp: generate_try_def narratorOf_def Let_def song_error_def songDataOf_def
      song_requested_def
      split: text_outcome.splits option.splits parse_outcome.splits if_splits)

lemma generate_try_song:
  "narratorOf s \<noteq> [] \<Longrightarrow> songDataOf h = Inr (Some d) \<Longrightarrow> song_slides d = Some sl \<Longrightarrow>
   sl \<noteq> [] \<Longrightarrow>
   generate_try h m v s =
     (song_requested h m s #
        fst (imageStep h m v (narratorOf s) sl (beatFor d)
               (startBackgroundMusic h (beatFor d)
                  (run_events (eventsDuringText h) (song_requested h m s)))),
      snd (imageStep h m v (narratorOf s) sl (beatFor d)
             (startBackgroundMusic h (beatFor d)
                (run_events (eventsDuringText h) (song_requested h m s)))))"
  by (simp add: generate_try_def narratorOf_def Let_def song_requested_def beatFor_def
      split_beta)

lemma song_cases:
  "(\<exists>e. song_error h = Some e) \<or>
   (\<exists>d sl. songDataOf h = Inr (Some d) \<and> song_slides d = Some sl \<and> sl \<noteq> [])"
  by (auto simp: song_error_def songDataOf_def
      split: text_outcome.splits option.splits parse_outcome.splits)

lemma imageStep_suspended_flag:
  "p \<in> set (fst (imageStep h m v c sl b s)) \<Longrightarrow> isGenerating p = isGenerating s"
  by (auto simp: imageStep_unfold saveAndRender_suspended awaiting_images_keeps
      images_arrived_keeps split: sum.splits if_splits)

lemma generate_try_suspended_flag:
  assumes "p \<in> set (fst (generate_try h m v s))"
  shows "isGenerating p = isGenerating s"
proof (cases "narratorOf s = []")
  case True
  with assms show ?thesis by (simp add: generate_try_no_narrator)
next
  case False
  from song_cases [of h] show ?thesis
  proof (elim disjE exE conjE)
    fix e assume "song_error h = Some e"
    with False assms show ?thesis
      by (simp add: generate_try_error song_requested_keeps)
  next
    fix d sl
    assume "songDataOf h = Inr (Some d)" "song_slides d = Some sl" "sl \<noteq> []"
    with False assms show ?thesis
      by (auto simp: generate_try_song song_requested_keeps startBackgroundMusic_keeps
          run_events_keeps dest!: imageStep_suspended_flag)
  qed
qed

lemma generate_suspended_flag:
  "p \<in> set (generate_suspended h s) \<Longrightarrow> isGenerating p"
  by (auto simp: generate_suspended_def generate_run_def Let_def split_beta generate_begin_keeps
      split: if_splits dest!: generate_try_suspended_flag)

lemma generate_busy: "isGenerating s \<Longrightarrow> generate h s = s \<and> generate_suspended h s = []"
  by (simp add: generate_def generate_suspended_def generate_run_def Let_def)

lemma generate_clears_flag: "\<not> isGenerating s \<Longrightarrow> \<not> isGenerating (generate h s)"
  by (simp add: generate_def generate_run_def Let_def split_beta generate_finally_def
      showErrorPopup_def)

lemma generate_suspended_busy:
  assumes "p \<in> set (generate_suspended h s)"
  shows "isGenerating (run_events evs p) \<and> generate h' (run_events evs p) = run_events evs p \<and>
    generate_suspended h' (run_events evs p) = []"
proof -
  have "isGenerating (run_events evs p)"
    using assms by (simp add: run_events_keeps generate_suspended_flag)
  then show ?thesis
    using generate_busy [of "run_events evs p" h'] by simp
qed

text \<open>
  C9. A call of \<open>generate\<close> in a state where \<open>isGenerating\<close> is set returns at once: the
  state, the log of requests included, is the one before the call. In every state a call
  of \<open>generate\<close> is suspended in (awaiting the text model, the images or the save), and in
  every state the handlers of later events make of it, the flag is set, so a second
  call made there, with whatever answers of the host, changes nothing and sends
  nothing: at most one generation is in flight. When a call made with the flag clear
  has finished, on whichever path, the flag is clear again.
\<close>

theorem generate_one_in_flight:
  "(isGenerating s \<longrightarrow> generate h s = s \<and> generate_suspended h s = []) \<and>
   (\<forall>p \<in> set (generate_suspended h s).
      isGenerating p \<and> generate h' p = p \<and> generate_suspended h' p = [] \<and>
      (\<forall>evs. isGenerating (run_events evs p) \<and>
         generate h' (run_events evs p) = run_events evs p \<and>
         generate_suspended h' (run_events evs p) = [])) \<and>
   (\<not> isGenerating s \<longrightarrow> \<not> isGenerating (generate h s))"
proof -
  have busy: "isGenerating s \<longrightarrow> generate h s = s \<and> generate_suspended h s = []"
    by (simp add: generate_busy)
  have suspended: "\<forall>p \<in> set (generate_suspended h s).
      isGenerating p \<and> generate h' p = p \<and> generate_suspended h' p = [] \<and>
      (\<forall>evs. isGenerating (run_events evs p) \<and>
         generate h' (run_events evs p) = run_events evs p \<and>
         generate_suspended h' (run_events evs p) = [])"
  proof (rule ballI)
    fix p
    assume p: "p \<in> set (generate_suspended h s)"
    have "isGenerating p \<and> generate h' p = p \<and> generate_suspended h' p = []"
      using generate_suspended_busy [OF p, of "[]" h'] by simp
    moreover have "\<forall>evs. isGenerating (run_events evs p) \<and>
         generate h' (run_events evs p) = run_events evs p \<and>
         generate_suspended h' (run_events evs p) = []"
      using generate_suspended_busy [OF p] by blast
    ultimately show "isGenerating p \<and> generate h' p = p \<and> generate_suspended h' p = [] \<and>
      (\<forall>evs. isGenerating (run_events evs p) \<and>
         generate h' (run_events evs p) = run_events evs p \<and>
         generate_suspended h' (run_events evs p) = [])"
      by blast
  qed
  have cleared: "\<not> isGenerating s \<longrightarrow> \<not> isGenerating (generate h s)"
    by (simp add: generate_clears_flag)
  from busy suspended cleared show ?thesis by blast
qed

lemma generate_error_path:
  assumes "reaches_song_request s" and "song_error h = Some e"
  shows "generate_run h s =
    ([song_requested h (trim (userInput s)) (generate_begin s)],
     generate_finally (generate_catch e (song_arrived h s)))"
  using assms
  by (simp add: generate_run_def reaches_song_request_def Let_def generate_try_error
      generate_begin_keeps song_arrived_def)

lemma generate_catch_keeps:
  "savedTikToks (generate_catch e s) = savedTikToks s"
  "db (generate_catch e s) = db s"
  "feed (generate_catch e s) = feed s"
  "gallery (generate_catch e s) = gallery s"
  "effects (generate_catch e s) = effects s"
  "errorModalMessage (generate_catch e s) = lit ''Something went wrong: '' @ e"
  "\<not> errorModalHidden (generate_catch e s)"
  "\<not> modalOverlayHidden (generate_catch e s)"
  by (simp_all add: generate_catch_def showErrorPopup_def Let_def)

lemma generate_finally_keeps:
  "savedTikToks (generate_finally s) = savedTikToks s"
  "db (generate_finally s) = db s"
  "feed (generate_finally s) = feed s"
  "gallery (generate_finally s) = gallery s"
  "imageRequestsOf (effects (generate_finally s)) = imageRequestsOf (effects s)"
  "errorModalMessage (generate_finally s) = errorModalMessage s"
  "errorModalHidden (generate_finally s) = errorModalHidden s"
  "modalOverlayHidden (generate_finally s) = modalOverlayHidden s"
  "\<not> isGenerating (generate_finally s)"
  by (simp_all add: generate_finally_def imageRequestsOf_append)

lemma song_error_None:
  "(song_error h = None) =
   (\<exists>txt d sl. textResult h = TextResolved (Some txt) \<and> jsonParse h txt = Parsed (Some d) \<and>
      song_slides d = Some sl \<and> sl \<noteq> [])"
  by (auto simp: song_error_def split: text_outcome.splits option.splits parse_outcome.splits)

text \<open>
  C5. When the call gets as far as the text request and the song is unusable (the
  request rejects or the response has no text, \<open>JSON.parse\<close> throws on the text, the
  parsed value is null or has no slides, or its list of slides is empty), \<open>generate\<close>
  ends on its failure path: the error dialog shows "Something went wrong:" with the
  error, no image request is sent, and \<open>savedTikToks\<close>, the store, the feed and the
  gallery are what they were, also while the call is suspended. The song is accepted
  only when the parsed structure has at least one slide.
\<close>

theorem generate_refuses_unusable_song:
  "(reaches_song_request s \<and> song_error h = Some e \<longrightarrow>
      errorModalMessage (generate h s) = lit ''Something went wrong: '' @ e \<and>
      \<not> errorModalHidden (generate h s) \<and> \<not> modalOverlayHidden (generate h s) \<and>
      savedTikToks (generate h s) = savedTikToks s \<and> db (generate h s) = db s \<and>
      feed (generate h s) = feed s \<and> gallery (generate h s) = gallery s \<and>
      imageRequestsOf (effects (generate h s)) = imageRequestsOf (effects s) \<and>
      \<not> isGenerating (generate h s) \<and>
      map savedTikToks (generate_suspended h s) = [savedTikToks s] \<and>
      map db (generate_suspended h s) = [db s]) \<and>
   ((song_error h = None) =
      (\<exists>txt d sl. textResult h = TextResolved (Some txt) \<and> jsonParse h txt = Parsed (Some d) \<and>
         song_slides d = Some sl \<and> sl \<noteq> []))"
proof (rule conjI, rule impI)
  assume a: "reaches_song_request s \<and> song_error h = Some e"
  then have run: "generate_run h s =
    ([song_requested h (trim (userInput s)) (generate_begin s)],
     generate_finally (generate_catch e (song_arrived h s)))"
    by (simp add: generate_error_path)
  show "errorModalMessage (generate h s) = lit ''Something went wrong: '' @ e \<and>
      \<not> errorModalHidden (generate h s) \<and> \<not> modalOverlayHidden (generate h s) \<and>
      savedTikToks (generate h s) = savedTikToks s \<and> db (generate h s) = db s \<and>
      feed (generate h s) = feed s \<and> gallery (generate h s) = gallery s \<and>
      imageRequestsOf (effects (generate h s)) = imageRequestsOf (effects s) \<and>
      \<not> isGenerating (generate h s) \<and>
      map savedTikToks (generate_suspended h s) = [savedTikToks s] \<and>
      map db (generate_suspended h s) = [db s]"
    by (simp add: generate_def generate_suspended_def run generate_finally_keeps
        generate_catch_keeps song_arrived_keeps song_requested_keeps generate_begin_keeps)
next
  show "(song_error h = None) =
      (\<exists>txt d sl. textResult h = TextResolved (Some txt) \<and> jsonParse h txt = Parsed (Some d) \<and>
         song_slides d = Some sl \<and> sl \<noteq> [])"
    by (rule song_error_None)
qed

lemma trim_question: "trim (lit ''Why is the sky blue?'') = lit ''Why is the sky blue?''"
  by (simp add: trim_def lit_def isWhiteSpace_def)

lemma example_literals:
  "lit ''Why is the sky blue?'' \<noteq> []"
  "lit ''cat'' \<noteq> []"
  "lit ''cat'' \<noteq> lit ''custom''"
  "lit ''anime'' \<noteq> []"
  by (simp_all add: lit_def)

lemma ready_app_reaches: "reaches_song_request ready_app"
  by (simp add: reaches_song_request_def ready_app_def initial_app_def trim_question
      narratorOf_def example_literals)

lemma no_slides_error:
  "song_error no_slides_host = Some (lit ''Error: Could not generate song structure from model.'')"
  by (simp add: song_error_def no_slides_host_def example_host_def example_song_def)

theorem generate_refuses_unusable_song_witness:
  "errorModalMessage (generate no_slides_host ready_app) =
     lit ''Something went wrong: Error: Could not generate song structure from model.'' \<and>
   savedTikToks (generate no_slides_host ready_app) = [] \<and>
   db (generate no_slides_host ready_app) = Some [] \<and>
   feed (generate no_slides_host ready_app) = [] \<and>
   imageRequestsOf (effects (generate no_slides_host ready_app)) = []"
  using generate_refuses_unusable_song
    [of ready_app no_slides_host "lit ''Error: Could not generate song structure from model.''"]
    ready_app_reaches no_slides_error
  by (simp add: ready_app_def initial_app_def lit_def)

text \<open>
  C10. When the input is empty or only white space after trimming, \<open>generate\<close> returns
  with the state it was called in (no flag set, no playback stopped, no dialog opened,
  no request logged, \<open>savedTikToks\<close> unchanged) and is never suspended.
\<close>

theorem generate_ignores_blank_input:
  "trim (userInput s) = [] \<Longrightarrow> generate h s = s \<and> generate_suspended h s = []"
  by (simp add: generate_def generate_suspended_def generate_run_def Let_def)

theorem generate_ignores_blank_input_witness:
  "generate example_host (ready_app\<lparr>userInput := [0x20, 0x09, 0x0A, 0xA0]\<rparr>) =
     ready_app\<lparr>userInput := [0x20, 0x09, 0x0A, 0xA0]\<rparr> \<and>
   generate_suspended example_host (ready_app\<lparr>userInput := [0x20, 0x09, 0x0A, 0xA0]\<rparr>) = []"
  using generate_ignores_blank_input
    [of "ready_app\<lparr>userInput := [0x20, 0x09, 0x0A, 0xA0]\<rparr>" example_host]
  by (simp add: trim_def isWhiteSpace_def)

lemma settle_keeps:
  "savedTikToks (case r of Returned x \<Rightarrow> x | Threw e x \<Rightarrow> generate_catch e x) =
     savedTikToks (completion_state r)"
  "db (case r of Returned x \<Rightarrow> x | Threw e x \<Rightarrow> generate_catch e x) = db (completion_state r)"
  "feed (case r of Returned x \<Rightarrow> x | Threw e x \<Rightarrow> generate_catch e x) = feed (completion_state r)"
  "effects (case r of Returned x \<Rightarrow> x | Threw e x \<Rightarrow> generate_catch e x) =
     effects (completion_state r)"
  by (cases r; simp add: generate_catch_keeps)+

lemma generate_song_path:
  assumes "reaches_song_request s" and "songDataOf h = Inr (Some d)"
    and "song_slides d = Some sl" and "sl \<noteq> []"
  shows "generate_run h s =
    (song_requested h (trim (userInput s)) (generate_begin s) #
       fst (imageStep h (trim (userInput s)) (voiceSelector s) (narratorOf s) sl (beatFor d)
         (music_started h d s)),
     generate_finally
       (case snd (imageStep h (trim (userInput s)) (voiceSelector s) (narratorOf s) sl (beatFor d)
          (music_started h d s)) of
          Returned x \<Rightarrow> x | Threw e x \<Rightarrow> generate_catch e x))"
  using assms
  by (simp add: generate_run_def reaches_song_request_def Let_def
      generate_try_song [where d = d and sl = sl] generate_begin_keeps music_started_def
      song_arrived_def)

lemma music_started_keeps:
  "isGenerating (music_started h d s)"
  "savedTikToks (music_started h d s) = savedTikToks s"
  "db (music_started h d s) = db s"
  "feed (music_started h d s) = feed s"
  "gallery (music_started h d s) = gallery s"
  "selectedStyle (music_started h d s) = selectedStyle (song_arrived h s)"
  "aiReady (music_started h d s) = aiReady (song_arrived h s)"
  "imageRequestsOf (effects (music_started h d s)) = imageRequestsOf (effects s)"
  by (simp_all add: music_started_def startBackgroundMusic_keeps song_arrived_keeps)

lemma generate_song_requests:
  assumes "reaches_song_request s" and "songDataOf h = Inr (Some d)"
    and "song_slides d = Some sl" and "sl \<noteq> []"
  shows "imageRequestsOf (effects (generate h s)) =
    imageRequestsOf (effects s) @ imageRequestsOf (imageRequestsFor h (music_started h d s) sl)"
  using imageStep_keeps(2)
    [of h "trim (userInput s)" "voiceSelector s" "narratorOf s" sl "beatFor d"
      "music_started h d s"]
  by (simp add: generate_def generate_song_path [OF assms] generate_finally_keeps settle_keeps
      music_started_keeps)

lemma generate_song_suspended:
  assumes "reaches_song_request s" and "songDataOf h = Inr (Some d)"
    and "song_slides d = Some sl" and "sl \<noteq> []"
  shows "\<exists>rest. generate_suspended h s =
    song_requested h (trim (userInput s)) (generate_begin s) #
    awaiting_images h sl (music_started h d s) # rest"
  using imageStep_suspended
    [of h "trim (userInput s)" "voiceSelector s" "narratorOf s" sl "beatFor d"
      "music_started h d s"]
  by (auto simp: generate_suspended_def generate_song_path [OF assms])

lemma image_failure_settles:
  assumes "i < length sl"
    and "isl (snd (generateImageFromPrompt h s i (image_prompt (sl ! i))))"
  shows "\<exists>e. promiseAll (image_results h s sl) = Inl e"
proof -
  have "isl (image_results h s sl ! i)"
    using assms by (simp add: image_results_nth)
  then have "isl (promiseAll (image_results h s sl))"
    using assms(1) promiseAll_Inl [of i "image_results h s sl"]
    by (simp add: image_results_length)
  then show ?thesis by (cases "promiseAll (image_results h s sl)") auto
qed

lemma generate_image_failure:
  assumes "reaches_song_request s" and "songDataOf h = Inr (Some d)"
    and "song_slides d = Some sl" and "sl \<noteq> []"
    and "promiseAll (image_results h (music_started h d s) sl) = Inl e"
  shows "generate_run h s =
    ([song_requested h (trim (userInput s)) (generate_begin s),
      awaiting_images h sl (music_started h d s)],
     generate_finally
       (showErrorPopup (lit ''Failed to generate images: '' @ e @ lit ''. Please try again.'')
          (images_arrived h sl (music_started h d s))))"
  using assms(5)
  by (simp add: generate_song_path [OF assms(1-4)] imageStep_unfold)

text \<open>
  C1, as the code has it. The call gets as far as the text request and the song has the
  slides \<open>sl\<close> (at least one). When the page still has its client once the song has
  arrived, the image requests \<open>generate\<close> sends are exactly one per slide, for the prompts
  of the slides in order and with the style selected at that moment; all of them are
  sent before the call suspends to await them, and none before the song is there. In
  every case, when the promise of the call of \<open>generateImageFromPrompt\<close> for any one slide
  rejects, \<open>savedTikToks\<close>, the store, the feed and the gallery are afterwards, and in
  every state the call was suspended in, what they were before the call; the dialog
  reports the failed image generation and the busy flag is clear.
\<close>

theorem generate_image_requests:
  "reaches_song_request s \<and> songDataOf h = Inr (Some d) \<and> song_slides d = Some sl \<and> sl \<noteq> [] \<longrightarrow>
     (aiReady (song_arrived h s) \<longrightarrow>
        imageRequestsOf (effects (generate h s)) =
          imageRequestsOf (effects s) @
          map (\<lambda>x. finalPromptFor (inheritedProperty h) (selectedStyle (song_arrived h s))
                 (image_prompt x)) sl \<and>
        (\<exists>p0 p1 rest. generate_suspended h s = p0 # p1 # rest \<and>
           imageRequestsOf (effects p0) = imageRequestsOf (effects s) \<and>
           imageRequestsOf (effects p1) =
             imageRequestsOf (effects s) @
             map (\<lambda>x. finalPromptFor (inheritedProperty h) (selectedStyle (song_arrived h s))
                    (image_prompt x)) sl)) \<and>
     ((\<exists>i < length sl.
          isl (snd (generateImageFromPrompt h (song_arrived h s) i (image_prompt (sl ! i))))) \<longrightarrow>
        savedTikToks (generate h s) = savedTikToks s \<and> db (generate h s) = db s \<and>
        feed (generate h s) = feed s \<and> gallery (generate h s) = gallery s \<and>
        map savedTikToks (generate_suspended h s) = [savedTikToks s, savedTikToks s] \<and>
        map db (generate_suspended h s) = [db s, db s] \<and>
        map feed (generate_suspended h s) = [feed s, feed s] \<and>
        (\<exists>e. errorModalMessage (generate h s) =
               lit ''Failed to generate images: '' @ e @ lit ''. Please try again.'') \<and>
        \<not> errorModalHidden (generate h s) \<and> \<not> isGenerating (generate h s))"
proof (rule impI)
  assume a: "reaches_song_request s \<and> songDataOf h = Inr (Some d) \<and> song_slides d = Some sl \<and>
    sl \<noteq> []"
  then have song: "reaches_song_request s" "songDataOf h = Inr (Some d)"
    "song_slides d = Some sl" "sl \<noteq> []"
    by simp_all
  define s1 where "s1 = song_requested h (trim (userInput s)) (generate_begin s)"
  define s3 where "s3 = music_started h d s"
  have reads: "selectedStyle s3 = selectedStyle (song_arrived h s)"
    "aiReady s3 = aiReady (song_arrived h s)"
    by (simp_all add: s3_def music_started_keeps)
  have reqs1: "imageRequestsOf (effects s1) = imageRequestsOf (effects s)"
    by (simp add: s1_def song_requested_keeps generate_begin_keeps)
  have kept1: "savedTikToks s1 = savedTikToks s" "db s1 = db s" "feed s1 = feed s"
    by (simp_all add: s1_def song_requested_keeps generate_begin_keeps)
  have kept3: "savedTikToks s3 = savedTikToks s" "db s3 = db s" "feed s3 = feed s"
    "gallery s3 = gallery s" "imageRequestsOf (effects s3) = imageRequestsOf (effects s)"
    by (simp_all add: s3_def music_started_keeps)
  have requests: "imageRequestsOf (effects (generate h s)) =
          imageRequestsOf (effects s) @
          map (\<lambda>x. finalPromptFor (inheritedProperty h) (selectedStyle (song_arrived h s))
                 (image_prompt x)) sl \<and>
        (\<exists>p0 p1 rest. generate_suspended h s = p0 # p1 # rest \<and>
           imageRequestsOf (effects p0) = imageRequestsOf (effects s) \<and>
           imageRequestsOf (effects p1) =
             imageRequestsOf (effects s) @
             map (\<lambda>x. finalPromptFor (inheritedProperty h) (selectedStyle (song_arrived h s))
                    (image_prompt x)) sl)"
    if ready: "aiReady (song_arrived h s)"
  proof -
    have sent: "imageRequestsOf (imageRequestsFor h s3 sl) =
        map (\<lambda>x. finalPromptFor (inheritedProperty h) (selectedStyle (song_arrived h s))
               (image_prompt x)) sl"
      using ready by (simp add: imageRequestsFor_cases reads)
    obtain rest where "generate_suspended h s = s1 # awaiting_images h sl s3 # rest"
      using generate_song_suspended [OF song] by (auto simp: s1_def s3_def)
    then show ?thesis
      using generate_song_requests [OF song]
      by (simp add: s3_def [symmetric] sent reqs1 awaiting_images_keeps kept3)
  qed
  have failure: "savedTikToks (generate h s) = savedTikToks s \<and> db (generate h s) = db s \<and>
        feed (generate h s) = feed s \<and> gallery (generate h s) = gallery s \<and>
        map savedTikToks (generate_suspended h s) = [savedTikToks s, savedTikToks s] \<and>
        map db (generate_suspended h s) = [db s, db s] \<and>
        map feed (generate_suspended h s) = [feed s, feed s] \<and>
        (\<exists>e. errorModalMessage (generate h s) =
               lit ''Failed to generate images: '' @ e @ lit ''. Please try again.'') \<and>
        \<not> errorModalHidden (generate h s) \<and> \<not> isGenerating (generate h s)"
    if "\<exists>i < length sl.
          isl (snd (generateImageFromPrompt h (song_arrived h s) i (image_prompt (sl ! i))))"
  proof -
    from that obtain i where "i < length sl"
      "isl (snd (generateImageFromPrompt h s3 i (image_prompt (sl ! i))))"
      using generateImageFromPrompt_reads [OF reads] by auto
    then obtain e where "promiseAll (image_results h s3 sl) = Inl e"
      using image_failure_settles [of i sl h s3] by auto
    then have "generate_run h s =
        ([s1, awaiting_images h sl s3],
         generate_finally
           (showErrorPopup (lit ''Failed to generate images: '' @ e @ lit ''. Please try again.'')
              (images_arrived h sl s3)))"
      using generate_image_failure [OF song] by (simp add: s1_def s3_def)
    then show ?thesis
      by (simp add: generate_def generate_suspended_def generate_finally_keeps
          showErrorPopup_def images_arrived_keeps awaiting_images_keeps kept1 kept3)
  qed
  from requests failure
  show "(aiReady (song_arrived h s) \<longrightarrow>
        imageRequestsOf (effects (generate h s)) =
          imageRequestsOf (effects s) @
          map (\<lambda>x. finalPromptFor (inheritedProperty h) (selectedStyle (song_arrived h s))
                 (image_prompt x)) sl \<and>
        (\<exists>p0 p1 rest. generate_suspended h s = p0 # p1 # rest \<and>
           imageRequestsOf (effects p0) = imageRequestsOf (effects s) \<and>
           imageRequestsOf (effects p1) =
             imageRequestsOf (effects s) @
             map (\<lambda>x. finalPromptFor (inheritedProperty h) (selectedStyle (song_arrived h s))
                    (image_prompt x)) sl)) \<and>
     ((\<exists>i < length sl.
          isl (snd (generateImageFromPrompt h (song_arrived h s) i (image_prompt (sl ! i))))) \<longrightarrow>
        savedTikToks (generate h s) = savedTikToks s \<and> db (generate h s) = db s \<and>
        feed (generate h s) = feed s \<and> gallery (generate h s) = gallery s \<and>
        map savedTikToks (generate_suspended h s) = [savedTikToks s, savedTikToks s] \<and>
        map db (generate_suspended h s) = [db s, db s] \<and>
        map feed (generate_suspended h s) = [feed s, feed s] \<and>
        (\<exists>e. errorModalMessage (generate h s) =
               lit ''Failed to generate images: '' @ e @ lit ''. Please try again.'') \<and>
        \<not> errorModalHidden (generate h s) \<and> \<not> isGenerating (generate h s))"
    by blast
qed

lemma example_song_data:
  "songDataOf image_failure_host = Inr (Some example_song)"
  "songDataOf key_removed_host = Inr (Some example_song)"
  "song_slides example_song =
     Some [\<lparr>song_lyrics = lit ''Blue light scatters'', image_prompt = lit ''a blue sky''\<rparr>,
           \<lparr>song_lyrics = lit ''   '', image_prompt = lit ''a cat looking up''\<rparr>]"
  by (simp_all add: songDataOf_def image_failure_host_def key_removed_host_def example_host_def
      example_song_def)

lemma song_arrived_restyled:
  "aiReady (song_arrived image_failure_host ready_app)"
  "selectedStyle (song_arrived image_failure_host ready_app) = lit ''anime''"
  by (simp_all add: song_arrived_def image_failure_host_def example_host_def styleClicked_def
      example_literals song_requested_keeps generate_begin_keeps ready_app_def initial_app_def)

lemma second_image_rejects:
  "isl (snd (generateImageFromPrompt image_failure_host
     (song_arrived image_failure_host ready_app) 1 p))"
  by (simp add: generateImageFromPrompt_def Let_def song_arrived_restyled)
    (simp add: image_failure_host_def example_host_def imageFromResponse_def)

theorem generate_image_requests_witness:
  "imageRequestsOf (effects (generate image_failure_host ready_app)) =
     [finalPromptFor prototype_excerpt (lit ''anime'') (lit ''a blue sky''),
      finalPromptFor prototype_excerpt (lit ''anime'') (lit ''a cat looking up'')] \<and>
   savedTikToks (generate image_failure_host ready_app) = [] \<and>
   db (generate image_failure_host ready_app) = Some [] \<and>
   feed (generate image_failure_host ready_app) = [] \<and>
   \<not> errorModalHidden (generate image_failure_host ready_app)"
proof -
  have "\<exists>i < length [\<lparr>song_lyrics = lit ''Blue light scatters'', image_prompt = lit ''a blue sky''\<rparr>,
           \<lparr>song_lyrics = lit ''   '', image_prompt = lit ''a cat looking up''\<rparr>].
      isl (snd (generateImageFromPrompt image_failure_host
        (song_arrived image_failure_host ready_app) i
          (image_prompt ([\<lparr>song_lyrics = lit ''Blue light scatters'', image_prompt = lit ''a blue sky''\<rparr>,
           \<lparr>song_lyrics = lit ''   '', image_prompt = lit ''a cat looking up''\<rparr>] ! i))))"
    using second_image_rejects by (intro exI [of _ 1]) simp
  moreover have "inheritedProperty image_failure_host = prototype_excerpt"
    by (simp add: image_failure_host_def example_host_def)
  ultimately show ?thesis
    using generate_image_requests
      [of ready_app image_failure_host example_song
        "[\<lparr>song_lyrics = lit ''Blue light scatters'', image_prompt = lit ''a blue sky''\<rparr>,
          \<lparr>song_lyrics = lit ''   '', image_prompt = lit ''a cat looking up''\<rparr>]"]
      ready_app_reaches example_song_data song_arrived_restyled
    by (simp add: ready_app_def initial_app_def)
qed

lemma song_arrived_key_removed:
  "\<not> aiReady (song_arrived key_removed_host ready_app)"
  by (simp add: song_arrived_def key_removed_host_def example_host_def handleSaveApiKey_def
      initializeGenAI_def)

text \<open>
  C1, as the claim words it, fails. The user saves the key dialog with no key while the
  song is awaited; the song arrives with two slides, and both calls of
  \<open>generateImageFromPrompt\<close> throw at \<open>ai.models\<close>: no image request is sent. The attempt
  ends with the dialog of the failed image generation.
\<close>

theorem generate_image_requests_counterexample:
  "reaches_song_request ready_app \<and>
   songDataOf key_removed_host = Inr (Some example_song) \<and>
   song_slides example_song =
     Some [\<lparr>song_lyrics = lit ''Blue light scatters'', image_prompt = lit ''a blue sky''\<rparr>,
           \<lparr>song_lyrics = lit ''   '', image_prompt = lit ''a cat looking up''\<rparr>] \<and>
   imageRequestsOf (effects (generate key_removed_host ready_app)) = [] \<and>
   errorModalMessage (generate key_removed_host ready_app) =
     lit ''Failed to generate images: '' @ clientUndefined @ lit ''. Please try again.''"
proof -
  let ?sl = "[\<lparr>song_lyrics = lit ''Blue light scatters'', image_prompt = lit ''a blue sky''\<rparr>,
           \<lparr>song_lyrics = lit ''   '', image_prompt = lit ''a cat looking up''\<rparr>]"
  have gone: "\<not> aiReady (music_started key_removed_host example_song ready_app)"
    by (simp add: music_started_keeps song_arrived_key_removed)
  have "imageRequestsOf (effects (generate key_removed_host ready_app)) = []"
    using generate_song_requests
      [OF ready_app_reaches example_song_data(2) example_song_data(3)] gone
    by (simp add: imageRequestsFor_cases ready_app_def initial_app_def)
  moreover have "promiseAll (image_results key_removed_host
      (music_started key_removed_host example_song ready_app) ?sl) = Inl clientUndefined"
    using gone by (simp add: image_results_def generateImageFromPrompt_def enumerate_simps)
  then have "generate_run key_removed_host ready_app =
      ([song_requested key_removed_host (trim (userInput ready_app)) (generate_begin ready_app),
        awaiting_images key_removed_host ?sl
          (music_started key_removed_host example_song ready_app)],
       generate_finally
         (showErrorPopup
            (lit ''Failed to generate images: '' @ clientUndefined @ lit ''. Please try again.'')
            (images_arrived key_removed_host ?sl
               (music_started key_removed_host example_song ready_app))))"
    using generate_image_failure
      [OF ready_app_reaches example_song_data(2) example_song_data(3)]
    by simp
  then have "errorModalMessage (generate key_removed_host ready_app) =
      lit ''Failed to generate images: '' @ clientUndefined @ lit ''. Please try again.''"
    by (simp add: generate_def generate_finally_keeps showErrorPopup_def)
  ultimately show ?thesis
    using ready_app_reaches example_song_data by simp
qed

theorem generate_one_in_flight_witness:
  "generate example_host (ready_app\<lparr>isGenerating := True\<rparr>) = ready_app\<lparr>isGenerating := True\<rparr> \<and>
   length (generate_suspended no_slides_host ready_app) = 1 \<and>
   isGenerating (hd (generate_suspended no_slides_host ready_app)) \<and>
   generate example_host (hd (generate_suspended no_slides_host ready_app)) =
     hd (generate_suspended no_slides_host ready_app) \<and>
   generate example_host
     (run_events [ApiKeySaved NoApiKey] (hd (generate_suspended no_slides_host ready_app))) =
     run_events [ApiKeySaved NoApiKey] (hd (generate_suspended no_slides_host ready_app)) \<and>
   \<not> isGenerating (generate no_slides_host ready_app)"
proof -
  have susp: "generate_suspended no_slides_host ready_app =
      [song_requested no_slides_host (trim (userInput ready_app)) (generate_begin ready_app)]"
    using generate_error_path [OF ready_app_reaches no_slides_error]
    by (simp add: generate_suspended_def)
  have busy: "generate example_host (ready_app\<lparr>isGenerating := True\<rparr>) =
      ready_app\<lparr>isGenerating := True\<rparr>"
    using generate_one_in_flight [of "ready_app\<lparr>isGenerating := True\<rparr>" example_host example_host]
    by simp
  have idle: "\<not> isGenerating ready_app"
    by (simp add: ready_app_def initial_app_def)
  from generate_one_in_flight [of ready_app no_slides_host example_host]
  have "\<forall>p \<in> set (generate_suspended no_slides_host ready_app).
      isGenerating p \<and> generate example_host p = p \<and>
      generate example_host (run_events [ApiKeySaved NoApiKey] p) =
        run_events [ApiKeySaved NoApiKey] p"
    and "\<not> isGenerating (generate no_slides_host ready_app)"
    using idle by blast+
  with busy show ?thesis
    unfolding susp by (simp del: run_events.simps)
qed

section \<open>Properties of playback\<close>

lemma spokenOf_append: "spokenOf (a @ b) = spokenOf a @ spokenOf b"
  by (induction a rule: spokenOf.induct) auto

lemma stopSlideshow_spoken: "spokenOf (effects (stopSlideshow s)) = spokenOf (effects s)"
  by (simp add: stopSlideshow_def Let_def spokenOf_append split: option.split)

lemma stopSlideshow_not_playing: "\<not> isPlaying (stopSlideshow s)"
  by (simp add: stopSlideshow_def Let_def split: option.split)

lemma speakAndAdvance_result:
  "isPlaying s \<Longrightarrow>
   currentSlideIndex (fst (speakAndAdvance voices pb s)) =
     currentSlideIndex pb +
     length (takeWhile blankLyrics (drop (currentSlideIndex pb) (slides (pb_tiktok pb)))) \<and>
   pb_tiktok (fst (speakAndAdvance voices pb s)) = pb_tiktok pb \<and>
   spokenOf (effects (snd (speakAndAdvance voices pb s))) =
     spokenOf (effects s) @
     (case dropWhile blankLyrics (drop (currentSlideIndex pb) (slides (pb_tiktok pb))) of
        [] \<Rightarrow> []
      | sd # _ \<Rightarrow> [(lyrics sd, selectedVoice voices (pb_tiktok pb))]) \<and>
   isPlaying (snd (speakAndAdvance voices pb s)) =
     (dropWhile blankLyrics (drop (currentSlideIndex pb) (slides (pb_tiktok pb))) \<noteq> [])"
proof (induction voices pb s rule: speakAndAdvance.induct)
  case (1 voices pb s)
  let ?i = "currentSlideIndex pb"
  let ?sl = "slides (pb_tiktok pb)"
  note unfold = speakAndAdvance.simps [of voices pb s]
  show ?case
  proof (cases "?i \<ge> length ?sl")
    case True
    then show ?thesis
      using 1(2)
      by (simp add: unfold stopSlideshow_spoken stopSlideshow_not_playing)
  next
    case False
    then have d: "drop ?i ?sl = (?sl ! ?i) # drop (Suc ?i) ?sl"
      by (simp add: Cons_nth_drop_Suc)
    show ?thesis
    proof (cases "trim (lyrics (?sl ! ?i)) = []")
      case True
      define s1 where "s1 = (if ?i < pb_sliderChildren pb
                   then s\<lparr>effects := effects s @ [ScrollSlideIntoView ?i]\<rparr>
                   else s)"
      have step: "speakAndAdvance voices pb s =
          speakAndAdvance voices (pb\<lparr>currentSlideIndex := ?i + 1\<rparr>) s1"
        using True False 1(2) by (simp add: unfold Let_def s1_def)
      have playing: "isPlaying s1" and spoken: "spokenOf (effects s1) = spokenOf (effects s)"
        using 1(2) by (simp_all add: s1_def spokenOf_append)
      have ih: "currentSlideIndex (fst (speakAndAdvance voices (pb\<lparr>currentSlideIndex := ?i + 1\<rparr>) s1)) =
          Suc ?i + length (takeWhile blankLyrics (drop (Suc ?i) ?sl)) \<and>
        pb_tiktok (fst (speakAndAdvance voices (pb\<lparr>currentSlideIndex := ?i + 1\<rparr>) s1)) = pb_tiktok pb \<and>
        spokenOf (effects (snd (speakAndAdvance voices (pb\<lparr>currentSlideIndex := ?i + 1\<rparr>) s1))) =
          spokenOf (effects s1) @
          (case dropWhile blankLyrics (drop (Suc ?i) ?sl) of
             [] \<Rightarrow> []
           | sd # _ \<Rightarrow> [(lyrics sd, selectedVoice voices (pb_tiktok pb))]) \<and>
        isPlaying (snd (speakAndAdvance voices (pb\<lparr>currentSlideIndex := ?i + 1\<rparr>) s1)) =
          (dropWhile blankLyrics (drop (Suc ?i) ?sl) \<noteq> [])"
        using 1(1) [OF _ s1_def refl True playing] False 1(2) by (simp cong: list.case_cong)
      have blank: "blankLyrics (?sl ! ?i)"
        using True by (simp add: blankLyrics_def)
      show ?thesis
        using ih blank by (simp add: step d spoken)
    next
      case nb: False
      then have nonblank: "\<not> blankLyrics (?sl ! ?i)"
        by (simp add: blankLyrics_def)
      show ?thesis
        using False 1(2) nb nonblank
        by (simp add: unfold Let_def d spokenOf_append)
    qed
  qed
qed

lemma speakAndAdvance_stays_stopped:
  "\<not> isPlaying s \<Longrightarrow> \<not> isPlaying (snd (speakAndAdvance voices pb s))"
  by (simp add: speakAndAdvance.simps [of voices pb s] stopSlideshow_not_playing)

lemma speakAndAdvance_playing:
  assumes "isPlaying (snd (speakAndAdvance voices pb s))"
  shows "currentSlideIndex pb \<le> currentSlideIndex (fst (speakAndAdvance voices pb s)) \<and>
    currentSlideIndex (fst (speakAndAdvance voices pb s)) < length (slides (pb_tiktok pb)) \<and>
    pb_tiktok (fst (speakAndAdvance voices pb s)) = pb_tiktok pb"
proof -
  let ?xs = "drop (currentSlideIndex pb) (slides (pb_tiktok pb))"
  have playing: "isPlaying s"
    using assms speakAndAdvance_stays_stopped by blast
  note r = speakAndAdvance_result [OF playing, of voices pb]
  from r assms have ne: "dropWhile blankLyrics ?xs \<noteq> []" by simp
  have "length (takeWhile blankLyrics ?xs) + length (dropWhile blankLyrics ?xs) = length ?xs"
    using length_append [of "takeWhile blankLyrics ?xs" "dropWhile blankLyrics ?xs"] by simp
  with ne have "length (takeWhile blankLyrics ?xs) < length ?xs"
    by (cases "dropWhile blankLyrics ?xs") auto
  then show ?thesis using r by auto
qed

lemma playCompletions_stopped: "\<not> isPlaying s \<Longrightarrow> playCompletions n voices pb s = (pb, s)"
  by (cases n) simp_all

lemma playCompletions_spoken:
  "isPlaying s \<Longrightarrow> length (slides (pb_tiktok pb)) - currentSlideIndex pb \<le> n \<Longrightarrow>
   spokenOf (effects (snd (playCompletions n voices (fst (speakAndAdvance voices pb s))
       (snd (speakAndAdvance voices pb s))))) =
     spokenOf (effects s) @
     map (\<lambda>sd. (lyrics sd, selectedVoice voices (pb_tiktok pb)))
       (filter (\<lambda>sd. \<not> blankLyrics sd) (drop (currentSlideIndex pb) (slides (pb_tiktok pb)))) \<and>
   \<not> isPlaying (snd (playCompletions n voices (fst (speakAndAdvance voices pb s))
       (snd (speakAndAdvance voices pb s))))"
proof (induction n arbitrary: pb s)
  case 0
  let ?r = "speakAndAdvance voices pb s"
  note r = speakAndAdvance_result [OF "0.prems"(1), of voices pb]
  from "0.prems"(2) have "drop (currentSlideIndex pb) (slides (pb_tiktok pb)) = []"
    by simp
  then show ?case using r by simp
next
  case (Suc n)
  let ?i = "currentSlideIndex pb"
  let ?sl = "slides (pb_tiktok pb)"
  let ?xs = "drop ?i ?sl"
  let ?r = "speakAndAdvance voices pb s"
  note r = speakAndAdvance_result [OF Suc.prems(1), of voices pb]
  show ?case
  proof (cases "dropWhile blankLyrics ?xs")
    case Nil
    then have stopped: "\<not> isPlaying (snd ?r)" using r by simp
    have "filter (\<lambda>sd. \<not> blankLyrics sd) ?xs = []"
      using Nil by (auto simp: filter_empty_conv dropWhile_eq_Nil_conv)
    then show ?thesis
      using r Nil stopped by (simp add: playCompletions_stopped)
  next
    case (Cons sd rest)
    then have playing: "isPlaying (snd ?r)" using r by simp
    let ?j = "currentSlideIndex (fst ?r)"
    have j: "?j = ?i + length (takeWhile blankLyrics ?xs)" using r by simp
    have bounds: "?j < length ?sl" "pb_tiktok (fst ?r) = pb_tiktok pb"
      using speakAndAdvance_playing [OF playing] by simp_all
    have dj: "drop ?j ?sl = sd # rest"
      using Cons j by (simp add: dropWhile_eq_drop add.commute)
    have rest: "drop (Suc ?j) ?sl = rest"
      using dj drop_Suc [of ?j ?sl] tl_drop [of ?j ?sl] by simp
    have nb: "\<not> blankLyrics sd"
      using hd_dropWhile [of blankLyrics ?xs] Cons by simp
    have "?xs = takeWhile blankLyrics ?xs @ sd # rest"
      using takeWhile_dropWhile_id [of blankLyrics ?xs] Cons by simp
    moreover have "filter (\<lambda>sd. \<not> blankLyrics sd) (takeWhile blankLyrics ?xs) = []"
      by (auto simp: filter_empty_conv dest: set_takeWhileD)
    ultimately have "filter (\<lambda>sd. \<not> blankLyrics sd) ?xs =
        filter (\<lambda>sd. \<not> blankLyrics sd) (sd # rest)"
      using filter_append [of "\<lambda>sd. \<not> blankLyrics sd" "takeWhile blankLyrics ?xs" "sd # rest"]
      by simp
    then have split: "filter (\<lambda>sd. \<not> blankLyrics sd) ?xs =
        sd # filter (\<lambda>sd. \<not> blankLyrics sd) rest"
      using nb by simp
    let ?pb2 = "(fst ?r)\<lparr>currentSlideIndex := ?j + 1\<rparr>"
    let ?s2 = "(snd ?r)\<lparr>speaking := False\<rparr>"
    have step: "playCompletions (Suc n) voices (fst ?r) (snd ?r) =
        playCompletions n voices (fst (speakAndAdvance voices ?pb2 ?s2))
          (snd (speakAndAdvance voices ?pb2 ?s2))"
      using playing by (simp add: utteranceEnded_def split_beta)
    have smaller: "length (slides (pb_tiktok ?pb2)) - currentSlideIndex ?pb2 \<le> n"
      using bounds j Suc.prems(2) by simp
    have ih: "spokenOf (effects (snd (playCompletions n voices (fst (speakAndAdvance voices ?pb2 ?s2))
          (snd (speakAndAdvance voices ?pb2 ?s2))))) =
        spokenOf (effects ?s2) @
        map (\<lambda>sd. (lyrics sd, selectedVoice voices (pb_tiktok ?pb2)))
          (filter (\<lambda>sd. \<not> blankLyrics sd) (drop (currentSlideIndex ?pb2) (slides (pb_tiktok ?pb2)))) \<and>
      \<not> isPlaying (snd (playCompletions n voices (fst (speakAndAdvance voices ?pb2 ?s2))
          (snd (speakAndAdvance voices ?pb2 ?s2))))"
      using Suc.IH [of ?s2 ?pb2] smaller playing by simp
    have spoken_r: "spokenOf (effects (snd ?r)) =
        spokenOf (effects s) @ [(lyrics sd, selectedVoice voices (pb_tiktok pb))]"
      using r Cons by simp
    have ih': "spokenOf (effects (snd (playCompletions (Suc n) voices (fst ?r) (snd ?r)))) =
        spokenOf (effects (snd ?r)) @
        map (\<lambda>sd. (lyrics sd, selectedVoice voices (pb_tiktok pb)))
          (filter (\<lambda>sd. \<not> blankLyrics sd) rest) \<and>
      \<not> isPlaying (snd (playCompletions (Suc n) voices (fst ?r) (snd ?r)))"
      using ih by (simp only: step) (simp add: bounds(2) rest)
    show ?thesis
      using ih' by (simp add: spoken_r split)
  qed
qed

lemma startSlideshow_spoken:
  assumes "activeTikTokContainer s = Some container"
    and "find (\<lambda>item. node item = container) (feed s) = Some item"
    and "find (\<lambda>t. tiktok_id t = item_tiktok_id item) (savedTikToks s) = Some t"
    and "slide_elements item \<noteq> []"
  shows "spokenOf (effects (snd (startSlideshow voices s))) =
     spokenOf (effects s) @
     (case dropWhile blankLyrics (slides t) of
        [] \<Rightarrow> []
      | sd # _ \<Rightarrow> [(lyrics sd, selectedVoice voices t)])"
proof -
  define s2 where "s2 = (stopSlideshow s)\<lparr>isPlaying := True, slideshowPaused := False\<rparr>"
  define pb where "pb = \<lparr>pb_tiktok = t, pb_sliderChildren = length (slide_elements item),
    currentSlideIndex = 0\<rparr>"
  have "isPlaying s2" by (simp add: s2_def)
  note r = speakAndAdvance_result [OF this, of voices pb]
  have "snd (startSlideshow voices s) = snd (speakAndAdvance voices pb s2)"
    using assms by (simp add: startSlideshow_def Let_def split_beta s2_def pb_def)
  moreover have "spokenOf (effects s2) = spokenOf (effects s)"
    by (simp add: s2_def stopSlideshow_spoken)
  ultimately show ?thesis
    using r by (simp add: pb_def cong: list.case_cong)
qed

text \<open>
  C6. While playback goes on, \<open>speakAndAdvance\<close> passes over every slide whose lyrics
  are empty or white space without handing anything to the speech engine: it ends at
  the first slide from \<open>currentSlideIndex\<close> on that is not blank, which it speaks (the
  only utterance it adds), and \<open>currentSlideIndex\<close> then points at that slide; when no
  such slide is left it stops playback. The index moves on from a spoken slide only in
  \<open>onend\<close>; \<open>onerror\<close> leaves it and speaks nothing. When the engine completes every
  utterance, what has been spoken at the end is the lyrics of the slides that are not
  blank, in order, and nothing else.
\<close>

theorem playback_skips_blank_lyrics:
  "(isPlaying s \<longrightarrow>
      currentSlideIndex (fst (speakAndAdvance voices pb s)) =
        currentSlideIndex pb +
        length (takeWhile blankLyrics (drop (currentSlideIndex pb) (slides (pb_tiktok pb)))) \<and>
      spokenOf (effects (snd (speakAndAdvance voices pb s))) =
        spokenOf (effects s) @
        (case dropWhile blankLyrics (drop (currentSlideIndex pb) (slides (pb_tiktok pb))) of
           [] \<Rightarrow> []
         | sd # _ \<Rightarrow> [(lyrics sd, selectedVoice voices (pb_tiktok pb))]) \<and>
      isPlaying (snd (speakAndAdvance voices pb s)) =
        (dropWhile blankLyrics (drop (currentSlideIndex pb) (slides (pb_tiktok pb))) \<noteq> []) \<and>
      (length (slides (pb_tiktok pb)) - currentSlideIndex pb \<le> n \<longrightarrow>
         spokenOf (effects (snd (playCompletions n voices (fst (speakAndAdvance voices pb s))
             (snd (speakAndAdvance voices pb s))))) =
           spokenOf (effects s) @
           map (\<lambda>sd. (lyrics sd, selectedVoice voices (pb_tiktok pb)))
             (filter (\<lambda>sd. \<not> blankLyrics sd)
                (drop (currentSlideIndex pb) (slides (pb_tiktok pb)))) \<and>
         \<not> isPlaying (snd (playCompletions n voices (fst (speakAndAdvance voices pb s))
             (snd (speakAndAdvance voices pb s)))))) \<and>
   currentSlideIndex (fst (utteranceFailed err pb s)) = currentSlideIndex pb \<and>
   spokenOf (effects (snd (utteranceFailed err pb s))) = spokenOf (effects s) \<and>
   utteranceEnded voices pb s =
     speakAndAdvance voices (pb\<lparr>currentSlideIndex := currentSlideIndex pb + 1\<rparr>)
       (s\<lparr>speaking := False\<rparr>)"
  by (simp add: speakAndAdvance_result playCompletions_spoken utteranceFailed_def utteranceEnded_def
      stopSlideshow_spoken showErrorPopup_def)

theorem playback_skips_blank_lyrics_witness:
  "spokenOf (effects (snd (playCompletions 4 []
      (fst (speakAndAdvance [] \<lparr>pb_tiktok = narrated_short, pb_sliderChildren = 5,
          currentSlideIndex = 1\<rparr> (ready_app\<lparr>isPlaying := True\<rparr>)))
      (snd (speakAndAdvance [] \<lparr>pb_tiktok = narrated_short, pb_sliderChildren = 5,
          currentSlideIndex = 1\<rparr> (ready_app\<lparr>isPlaying := True\<rparr>)))))) =
     [(lit ''all around'', None)] \<and>
   currentSlideIndex (fst (speakAndAdvance [] \<lparr>pb_tiktok = narrated_short, pb_sliderChildren = 5,
          currentSlideIndex = 1\<rparr> (ready_app\<lparr>isPlaying := True\<rparr>))) = 3"
proof -
  have sl: "drop 1 (slides narrated_short) =
      [\<lparr>lyrics = lit ''  '', imageSrc = []\<rparr>, \<lparr>lyrics = [], imageSrc = []\<rparr>,
       \<lparr>lyrics = lit ''all around'', imageSrc = []\<rparr>, \<lparr>lyrics = [0x09, 0x0A], imageSrc = []\<rparr>]"
    by (simp add: narrated_short_def)
  have len: "length (slides narrated_short) = 5"
    by (simp add: narrated_short_def)
  have blank: "blankLyrics \<lparr>lyrics = lit ''  '', imageSrc = []\<rparr>"
    "blankLyrics \<lparr>lyrics = [], imageSrc = []\<rparr>"
    "\<not> blankLyrics \<lparr>lyrics = lit ''all around'', imageSrc = []\<rparr>"
    "blankLyrics \<lparr>lyrics = [0x09, 0x0A], imageSrc = []\<rparr>"
    by (simp_all add: blankLyrics_def trim_def isWhiteSpace_def lit_def)
  show ?thesis
    using playback_skips_blank_lyrics
      [of "ready_app\<lparr>isPlaying := True\<rparr>" "[]"
        "\<lparr>pb_tiktok = narrated_short, pb_sliderChildren = 5, currentSlideIndex = 1\<rparr>" 4 "[]"]
    by (simp add: sl len blank ready_app_def initial_app_def selectedVoice_def narrated_short_def
        example_short_def)
qed

section \<open>Properties of the history\<close>

lemma renderThumbnails_ok:
  "list_all (\<lambda>t. slides t \<noteq> []) ts \<Longrightarrow>
   renderThumbnails ts acc = Returned (acc @ map thumbnailOf ts)"
  by (induction ts arbitrary: acc) (auto simp: thumbnailOf_def split: list.split)

lemma renderHistoryGallery_ok:
  "list_all (\<lambda>t. slides t \<noteq> []) (savedTikToks s) \<Longrightarrow>
   renderHistoryGallery s =
     Returned (s\<lparr>gallery := (if savedTikToks s = [] then Placeholder
                               else Thumbnails (map thumbnailOf (savedTikToks s)))\<rparr>)"
  by (simp add: renderHistoryGallery_def renderThumbnails_ok)

lemma addTikTokToFeed_keeps:
  "tiktok_id (fst (addTikTokToFeed t s)) = tiktok_id t"
  "slides (fst (addTikTokToFeed t s)) = slides t"
  "thumbnailOf (fst (addTikTokToFeed t s)) = thumbnailOf t"
  "db (snd (addTikTokToFeed t s)) = db s"
  "gallery (snd (addTikTokToFeed t s)) = gallery s"
  "savedTikToks (snd (addTikTokToFeed t s)) = savedTikToks s"
  by (simp_all add: addTikTokToFeed_def Let_def thumbnailOf_def)

lemma addAllToFeed_keeps:
  "map tiktok_id (fst (addAllToFeed ts s)) = map tiktok_id ts \<and>
   map slides (fst (addAllToFeed ts s)) = map slides ts \<and>
   map thumbnailOf (fst (addAllToFeed ts s)) = map thumbnailOf ts \<and>
   db (snd (addAllToFeed ts s)) = db s \<and>
   gallery (snd (addAllToFeed ts s)) = gallery s"
  by (induction ts arbitrary: s) (simp_all add: split_beta Let_def addTikTokToFeed_keeps)

lemma desc_from_sorted_neg:
  "sorted (map (\<lambda>t. - int (k t)) xs) \<Longrightarrow> distinct (map k xs) \<Longrightarrow> sorted_wrt (>) (map k xs)"
  by (induction xs) (auto simp: le_less)

lemma sorted_desc_ids:
  assumes "distinct (map tiktok_id store)"
  shows "sorted_wrt (>) (map tiktok_id (sort_key (\<lambda>t. - int (tiktok_id t)) (map asTikTok store)))"
proof -
  define ys where "ys = map asTikTok store"
  have "map tiktok_id ys = map tiktok_id store"
    by (simp add: ys_def asTikTok_def)
  with assms have "distinct (map tiktok_id ys)" by simp
  then have "distinct (map tiktok_id (sort_key (\<lambda>t. - int (tiktok_id t)) ys))"
    by (simp add: distinct_map)
  moreover have "sorted (map (\<lambda>t. - int (tiktok_id t)) (sort_key (\<lambda>t. - int (tiktok_id t)) ys))"
    by (rule sorted_sort_key)
  ultimately show ?thesis
    unfolding ys_def [symmetric] by (rule desc_from_sorted_neg [rotated])
qed

lemma load_establishes:
  assumes "db s = Some store" and "store_ok b store"
    and "store = [] \<longrightarrow> gallery_thumbnails (gallery s) = []"
  shows "history_inv b (apply_op (Load None) s)"
proof -
  define loaded where "loaded = sort_key (\<lambda>t. - int (tiktok_id t)) (map asTikTok store)"
  have ids: "set (map tiktok_id loaded) = set (map tiktok_id store)"
    by (simp add: loaded_def asTikTok_def image_image)
  have sorted: "sorted_wrt (>) (map tiktok_id loaded)"
    using assms(2) by (simp add: loaded_def sorted_desc_ids store_ok_def)
  have nonempty: "list_all (\<lambda>x. x \<noteq> []) (map slides loaded)"
    using assms(2) by (auto simp: loaded_def store_ok_def list_all_iff asTikTok_def)
  show ?thesis
  proof (cases "store = []")
    case True
    then show ?thesis
      using assms by (simp add: loadHistoryFromDB_def history_inv_def Let_def)
  next
    case False
    have "length loaded = length store"
      by (simp add: loaded_def)
    with False have ne: "loaded \<noteq> []"
      by auto
    define s2 where
      "s2 = s\<lparr>savedTikToks := loaded, initialMessageHidden := True, slideshowHidden := False\<rparr>"
    define fed where "fed = addAllToFeed (rev loaded) s2"
    define mem where "mem = rev (fst fed)"
    define s4 where "s4 = (snd fed)\<lparr>savedTikToks := mem\<rparr>"
    note kept = addAllToFeed_keeps [of "rev loaded" s2, folded fed_def]
    have m_ids: "map tiktok_id mem = map tiktok_id loaded"
      using kept by (simp add: mem_def rev_map [symmetric])
    have m_slides: "map slides mem = map slides loaded"
      using kept by (simp add: mem_def rev_map [symmetric])
    have all4: "list_all (\<lambda>t. slides t \<noteq> []) (savedTikToks s4)"
    proof -
      have "list_all (\<lambda>x. x \<noteq> []) (map slides mem)"
        using nonempty by (simp only: m_slides)
      then show ?thesis by (simp add: s4_def list_all_iff)
    qed
    have ne4: "savedTikToks s4 \<noteq> []"
    proof -
      have "length mem = length loaded"
        using m_ids by (metis length_map)
      with ne show ?thesis by (auto simp: s4_def)
    qed
    have "loadHistoryFromDB None s = renderHistoryGallery s4"
      using assms(1) ne
      unfolding s4_def mem_def fed_def s2_def loaded_def
      by (simp add: loadHistoryFromDB_def Let_def split_beta)
    then have load: "completion_state (loadHistoryFromDB None s) = s4\<lparr>gallery := Thumbnails (map thumbnailOf mem)\<rparr>"
      using renderHistoryGallery_ok [OF all4] ne4 by (simp add: s4_def)
    have db4: "db s4 = Some store"
      using kept assms(1) by (simp add: s4_def s2_def)
    show ?thesis
      using assms(2) ids sorted all4 db4
      by (simp add: load history_inv_def m_ids s4_def)
  qed
qed

lemma history_inv_mono: "history_inv b s \<Longrightarrow> b \<le> b' \<Longrightarrow> history_inv b' s"
  by (auto simp: history_inv_def store_ok_def list_all_iff split: option.splits)

lemma load_preserves:
  assumes "history_inv b s"
  shows "history_inv b (apply_op (Load getAllError) s)"
proof (cases getAllError)
  case (Some e)
  then show ?thesis
    using assms by (auto simp: loadHistoryFromDB_def history_inv_def split: option.splits)
next
  case None
  from assms obtain store where store: "db s = Some store" "store_ok b store"
    and ids: "set (map tiktok_id (savedTikToks s)) = set (map tiktok_id store)"
    and g: "gallery_thumbnails (gallery s) = map thumbnailOf (savedTikToks s)"
    by (auto simp: history_inv_def split: option.splits)
  have "store = [] \<longrightarrow> gallery_thumbnails (gallery s) = []"
    using ids g by auto
  with store show ?thesis
    unfolding None by (rule load_establishes)
qed

lemma save_preserves:
  assumes inv: "history_inv b s" and fresh: "b < tiktok_id t" and ne: "slides t \<noteq> []"
  shows "history_inv (tiktok_id t) (apply_op (Save putErr t) s)"
proof -
  from inv obtain store where store: "db s = Some store" "store_ok b store"
    and ids: "set (map tiktok_id (savedTikToks s)) = set (map tiktok_id store)"
    and sorted: "sorted_wrt (>) (map tiktok_id (savedTikToks s))"
    and slides: "list_all (\<lambda>t. slides t \<noteq> []) (savedTikToks s)"
    and g: "gallery_thumbnails (gallery s) = map thumbnailOf (savedTikToks s)"
    by (auto simp: history_inv_def split: option.splits)
  show ?thesis
  proof (cases putErr)
    case (Some e)
    then have "snd (saveAndRenderNewTikTok putErr t s) =
        showErrorPopup (lit ''Failed to save your new Short. Storage might be full or corrupted.'') s"
      by (simp add: saveAndRenderNewTikTok_def saveTikTokToDB_def saveFailed_def Let_def store(1)
          showErrorPopup_def)
    then have "history_inv b (apply_op (Save putErr t) s)"
      using inv by (auto simp: history_inv_def showErrorPopup_def split: option.splits)
    then show ?thesis using fresh by (auto intro: history_inv_mono)
  next
    case None
    have below: "\<forall>r \<in> set store. tiktok_id r \<le> b"
      using store(2) by (simp add: store_ok_def list_all_iff)
    then have new: "tiktok_id t \<notin> set (map tiktok_id store)"
      using fresh by auto
    define r where "r = savableTikTok t"
    have rid: "tiktok_id r = tiktok_id t" and rslides: "slides r = slides t"
      by (simp_all add: r_def savableTikTok_def)
    have put: "store_put r store = store @ [r]"
      using new by (simp add: store_put_def rid)
    define s2 where "s2 = s\<lparr>savedTikToks := t # savedTikToks s, db := Some (store @ [r])\<rparr>"
    define t' where "t' = fst (addTikTokToFeed t s2)"
    define s4 where "s4 = (snd (addTikTokToFeed t s2))\<lparr>savedTikToks := t' # savedTikToks s\<rparr>"
    note kept = addTikTokToFeed_keeps [of t s2, folded t'_def]
    have all4: "list_all (\<lambda>t. slides t \<noteq> []) (savedTikToks s4)"
      using slides ne kept by (simp add: s4_def)
    have "snd (saveAndRenderNewTikTok putErr t s) =
        (completion_state (renderHistoryGallery s4))\<lparr>effects :=
           effects (completion_state (renderHistoryGallery s4)) @ [ScrollFeedToTop]\<rparr>"
      using renderHistoryGallery_ok [OF all4]
      unfolding s4_def t'_def s2_def r_def
      by (simp add: saveAndRenderNewTikTok_def saveTikTokToDB_def Let_def store(1) None
          put [unfolded r_def] split_beta addTikTokToFeed_keeps)
    then have result: "snd (saveAndRenderNewTikTok putErr t s) =
        s4\<lparr>gallery := Thumbnails (map thumbnailOf (t' # savedTikToks s)),
           effects := effects s4 @ [ScrollFeedToTop]\<rparr>"
      using renderHistoryGallery_ok [OF all4] by (simp add: s4_def)
    have db4: "db s4 = Some (store @ [r])"
      using kept by (simp add: s4_def s2_def)
    have ok: "store_ok (tiktok_id t) (store @ [r])"
      using store(2) new fresh ne
      by (auto simp: store_ok_def list_all_iff rid rslides)
    have sorted': "sorted_wrt (>) (map tiktok_id (t' # savedTikToks s))"
      using sorted below ids fresh kept by auto
    let ?final = "apply_op (Save putErr t) s"
    have final: "db ?final = Some (store @ [r])" "savedTikToks ?final = t' # savedTikToks s"
      "gallery ?final = Thumbnails (map thumbnailOf (t' # savedTikToks s))"
      using db4 by (simp_all add: result s4_def)
    have all': "list_all (\<lambda>t. slides t \<noteq> []) (t' # savedTikToks s)"
      using all4 by (simp add: s4_def)
    have ids': "set (map tiktok_id (t' # savedTikToks s)) = set (map tiktok_id (store @ [r]))"
      using ids kept(1) by (simp add: rid)
    show ?thesis
      unfolding history_inv_def final using ok sorted' all' ids' by simp
  qed
qed

lemma run_ops_preserves:
  "history_inv b s \<Longrightarrow> fresh_saves b ops \<Longrightarrow> \<exists>b'. history_inv b' (run_ops ops s)"
proof (induction ops arbitrary: b s)
  case Nil
  then show ?case by (auto simp: run_ops_def)
next
  case (Cons op ops)
  show ?case
  proof (cases op)
    case (Load e)
    have "history_inv b (apply_op (Load e) s)"
      using Cons.prems(1) by (rule load_preserves)
    with Cons.prems Load have "history_inv b (apply_op op s)" "fresh_saves b ops"
      by simp_all
    then have "\<exists>b'. history_inv b' (run_ops ops (apply_op op s))"
      by (rule Cons.IH)
    then show ?thesis by (simp add: run_ops_def)
  next
    case (Save e t)
    with Cons.prems have fresh: "b < tiktok_id t" "slides t \<noteq> []" "fresh_saves (tiktok_id t) ops"
      by simp_all
    have "history_inv (tiktok_id t) (apply_op (Save e t) s)"
      using Cons.prems(1) fresh(1,2) by (rule save_preserves)
    with Save fresh have "history_inv (tiktok_id t) (apply_op op s)" "fresh_saves (tiktok_id t) ops"
      by simp_all
    then have "\<exists>b'. history_inv b' (run_ops ops (apply_op op s))"
      by (rule Cons.IH)
    then show ?thesis by (simp add: run_ops_def)
  qed
qed

lemma desc_distinct: "sorted_wrt (>) (xs :: nat list) \<Longrightarrow> distinct xs"
  by (induction xs) auto

lemma history_inv_gallery:
  assumes "history_inv b s"
  shows "gallery_thumbnails (gallery s) = map thumbnailOf (savedTikToks s) \<and>
    sorted_wrt (>) (map thumb_tiktok_id (gallery_thumbnails (gallery s))) \<and>
    (\<exists>store. db s = Some store \<and>
       length (gallery_thumbnails (gallery s)) = card (set (map tiktok_id store)))"
proof -
  from assms obtain store where store: "db s = Some store" "store_ok b store"
    and ids: "set (map tiktok_id (savedTikToks s)) = set (map tiktok_id store)"
    and sorted: "sorted_wrt (>) (map tiktok_id (savedTikToks s))"
    and g: "gallery_thumbnails (gallery s) = map thumbnailOf (savedTikToks s)"
    by (auto simp: history_inv_def split: option.splits)
  have tids: "map thumb_tiktok_id (map thumbnailOf (savedTikToks s)) = map tiktok_id (savedTikToks s)"
    by (simp add: thumbnailOf_def)
  have "distinct (map tiktok_id (savedTikToks s))"
    using sorted by (rule desc_distinct)
  then have "card (set (map tiktok_id (savedTikToks s))) = length (savedTikToks s)"
    using distinct_card [of "map tiktok_id (savedTikToks s)"] by simp
  then have "length (gallery_thumbnails (gallery s)) = card (set (map tiktok_id store))"
    using ids g by simp
  moreover have "sorted_wrt (>) (map thumb_tiktok_id (gallery_thumbnails (gallery s)))"
    unfolding g tids by (rule sorted)
  ultimately show ?thesis using store g by simp
qed

text \<open>
  C7, as the code has it. The page starts with no thumbnail in the gallery and a store
  whose records have distinct ids (\<open>id\<close> is the key path of the store) and at least one
  slide each; the history is loaded, as \<open>init\<close> does, and then loads and saves follow in
  any order and with any outcome of the backend, every saved short with at least one
  slide and an id above the ids of the store and of the shorts saved before it, as the
  values of \<open>Date.now()\<close> are. Afterwards the gallery shows the thumbnails of exactly the
  shorts of \<open>savedTikToks\<close>, in the order of that list; their ids are strictly
  descending; and their number is the number of ids in the store.
\<close>

theorem history_gallery_sorted:
  "gallery_thumbnails (gallery s0) = [] \<and> db s0 = Some store0 \<and> store_ok b store0 \<and>
   fresh_saves b ops \<longrightarrow>
     gallery_thumbnails (gallery (run_ops (Load None # ops) s0)) =
       map thumbnailOf (savedTikToks (run_ops (Load None # ops) s0)) \<and>
     sorted_wrt (>) (map thumb_tiktok_id (gallery_thumbnails (gallery (run_ops (Load None # ops) s0)))) \<and>
     (\<exists>store. db (run_ops (Load None # ops) s0) = Some store \<and>
        length (gallery_thumbnails (gallery (run_ops (Load None # ops) s0))) =
          card (set (map tiktok_id store)))"
proof (rule impI)
  assume a: "gallery_thumbnails (gallery s0) = [] \<and> db s0 = Some store0 \<and> store_ok b store0 \<and>
    fresh_saves b ops"
  then have "history_inv b (apply_op (Load None) s0)"
    by (intro load_establishes [of s0 store0]) simp_all
  with a obtain b' where "history_inv b' (run_ops ops (apply_op (Load None) s0))"
    using run_ops_preserves by blast
  then have "history_inv b' (run_ops (Load None # ops) s0)"
    by (simp add: run_ops_def)
  then show "gallery_thumbnails (gallery (run_ops (Load None # ops) s0)) =
       map thumbnailOf (savedTikToks (run_ops (Load None # ops) s0)) \<and>
     sorted_wrt (>) (map thumb_tiktok_id (gallery_thumbnails (gallery (run_ops (Load None # ops) s0)))) \<and>
     (\<exists>store. db (run_ops (Load None # ops) s0) = Some store \<and>
        length (gallery_thumbnails (gallery (run_ops (Load None # ops) s0))) =
          card (set (map tiktok_id store)))"
    by (rule history_inv_gallery)
qed

theorem history_gallery_sorted_witness:
  "sorted_wrt (>) (map thumb_tiktok_id (gallery_thumbnails (gallery
     (run_ops [Load None, Save None example_short, Load None,
               Save (Some (lit ''QuotaExceededError'')) (example_short\<lparr>tiktok_id := 1700000000001\<rparr>)]
        (initial_app\<lparr>db := Some stored_example\<rparr>))))) \<and>
   gallery_thumbnails (gallery
     (run_ops [Load None, Save None example_short, Load None,
               Save (Some (lit ''QuotaExceededError'')) (example_short\<lparr>tiktok_id := 1700000000001\<rparr>)]
        (initial_app\<lparr>db := Some stored_example\<rparr>))) =
   map thumbnailOf (savedTikToks
     (run_ops [Load None, Save None example_short, Load None,
               Save (Some (lit ''QuotaExceededError'')) (example_short\<lparr>tiktok_id := 1700000000001\<rparr>)]
        (initial_app\<lparr>db := Some stored_example\<rparr>)))"
proof -
  have "gallery_thumbnails (gallery (initial_app\<lparr>db := Some stored_example\<rparr>)) = [] \<and>
    db (initial_app\<lparr>db := Some stored_example\<rparr>) = Some stored_example \<and>
    store_ok 9 stored_example \<and>
    fresh_saves 9 [Save None example_short, Load None,
        Save (Some (lit ''QuotaExceededError'')) (example_short\<lparr>tiktok_id := 1700000000001\<rparr>)]"
    by (simp add: initial_app_def stored_example_def store_ok_def savableTikTok_def
        example_short_def)
  with history_gallery_sorted
    [of "initial_app\<lparr>db := Some stored_example\<rparr>" stored_example 9
      "[Save None example_short, Load None,
        Save (Some (lit ''QuotaExceededError'')) (example_short\<lparr>tiktok_id := 1700000000001\<rparr>)]"]
  show ?thesis by blast
qed

text \<open>
  C7, as the claim words it, fails. When the load of \<open>init\<close> is refused by the backend
  and a short is saved afterwards, the gallery shows the one short of \<open>savedTikToks\<close>
  while the store holds three. When a short is saved with an id below one of the store
  (the clock of \<open>Date.now()\<close> was set back), it is put at the head of the list all the
  same, and the ids of the gallery are not descending. And a stored record without
  slides makes \<open>renderHistoryGallery\<close> throw: the gallery stays behind the list.
\<close>

theorem history_gallery_counterexample:
  "map thumb_tiktok_id (gallery_thumbnails (gallery
     (run_ops [Load (Some (lit ''UnknownError'')), Save None example_short]
        (initial_app\<lparr>db := Some stored_example\<rparr>)))) = [1700000000000] \<and>
   map_option (map tiktok_id) (db
     (run_ops [Load (Some (lit ''UnknownError'')), Save None example_short]
        (initial_app\<lparr>db := Some stored_example\<rparr>))) = Some [5, 9, 1700000000000] \<and>
   map thumb_tiktok_id (gallery_thumbnails (gallery
     (run_ops [Load None, Save None (example_short\<lparr>tiktok_id := 7\<rparr>)]
        (initial_app\<lparr>db := Some stored_example\<rparr>)))) = [7, 9, 5] \<and>
   \<not> sorted_wrt (>) (map thumb_tiktok_id (gallery_thumbnails (gallery
     (run_ops [Load None, Save None (example_short\<lparr>tiktok_id := 7\<rparr>)]
        (initial_app\<lparr>db := Some stored_example\<rparr>))))) \<and>
   gallery_thumbnails (gallery
     (run_ops [Load None]
        (initial_app\<lparr>db := Some [savableTikTok (example_short\<lparr>slides := []\<rparr>)]\<rparr>))) = [] \<and>
   map tiktok_id (savedTikToks
     (run_ops [Load None]
        (initial_app\<lparr>db := Some [savableTikTok (example_short\<lparr>slides := []\<rparr>)]\<rparr>))) =
     [1700000000000]"
  by (simp add: run_ops_def loadHistoryFromDB_def saveAndRenderNewTikTok_def saveTikTokToDB_def
      store_put_def addTikTokToFeed_def renderHistoryGallery_def Let_def initial_app_def
      stored_example_def example_short_def savableTikTok_def asTikTok_def)

end
